theory Spec2Isabelle
  imports Complex_Main
begin

section \<open>Numbers and strings of the host language\<close>

text \<open>
  A TypeScript \<open>number\<close> is a finite value, one of the two infinities or NaN. The
  finite values are kept as reals: the code under study converts strings to numbers,
  stores numbers, tests them for truthiness and compares them with the constants 140
  and 90, and does no arithmetic on them. Strings are byte lists holding the UTF-8
  image of the source's strings, so that \<open>===\<close> on strings is equality of lists.
\<close>

datatype number = NaN | NegInf | Fin real | PosInf

text \<open>The relational operator \<open>a > b\<close> on numbers: false as soon as one side is NaN.\<close>

fun js_gt :: "number \<Rightarrow> number \<Rightarrow> bool" where
  "js_gt NaN b = False"
| "js_gt a NaN = False"
| "js_gt NegInf b = False"
| "js_gt (Fin x) NegInf = True"
| "js_gt (Fin x) (Fin y) = (y < x)"
| "js_gt (Fin x) PosInf = False"
| "js_gt PosInf PosInf = False"
| "js_gt PosInf b = True"

text \<open>Truthiness of a number: NaN and zero are falsy, everything else is truthy.\<close>

fun truthy :: "number \<Rightarrow> bool" where
  "truthy NaN = False"
| "truthy (Fin x) = (x \<noteq> 0)"
| "truthy NegInf = True"
| "truthy PosInf = True"

text \<open>The UTF-8 bytes of the non-ASCII characters in the source's string literals.\<close>

definition o_acute :: string where "o_acute = [CHR 0xC3, CHR 0xB3]"
definition i_acute :: string where "i_acute = [CHR 0xC3, CHR 0xAD]"
definition e_acute :: string where "e_acute = [CHR 0xC3, CHR 0xA9]"
definition rotating_light :: string where "rotating_light = [CHR 0xF0, CHR 0x9F, CHR 0x9A, CHR 0xA8]"

section \<open>The FHIR resource shapes the code reads and builds\<close>

text \<open>
  Every field that is optional in the FHIR typings is an \<open>option\<close>; an optional
  array is an optional list, so that an absent array and an empty one stay distinct.
\<close>

record Coding =
  coding_system :: "string option"
  coding_code :: "string option"
  coding_display :: "string option"

record CodeableConcept =
  cc_coding :: "Coding list option"
  cc_text :: "string option"

record Quantity =
  q_value :: "number option"
  q_unit :: "string option"
  q_system :: "string option"
  q_code :: "string option"

record Reference =
  ref_reference :: "string option"
  ref_display :: "string option"

record ObservationComponent =
  comp_code :: "CodeableConcept option"
  comp_valueQuantity :: "Quantity option"

record Observation =
  obs_resourceType :: string
  obs_id :: "string option"
  obs_subject :: "Reference option"
  obs_category :: "CodeableConcept list option"
  obs_code :: "CodeableConcept option"
  obs_component :: "ObservationComponent list option"
  obs_valueQuantity :: "Quantity option"
  obs_effectiveDateTime :: "string option"
  obs_status :: "string option"

section \<open>Classifier\<close>

text \<open>
  \<open>isBloodPressureObservation\<close> and \<open>extractBloodPressureValues\<close> have the same text in
  \<open>blood-pressure-alert-bot.ts\<close> and in the email variant of the bot.

  \<open>observation.code?.coding?.some(p) || false\<close>: an absent \<open>code\<close> or \<open>coding\<close> makes
  the chain \<open>undefined\<close>, which \<open>|| false\<close> turns into \<open>false\<close>.
\<close>

definition isBloodPressureObservation :: "Observation \<Rightarrow> bool" where
  "isBloodPressureObservation observation =
     (case obs_code observation of
        None \<Rightarrow> False
      | Some code \<Rightarrow>
          (case cc_coding code of
             None \<Rightarrow> False
           | Some codings \<Rightarrow>
               list_ex (\<lambda>coding. coding_code coding = Some ''85354-9''
                                 \<and> coding_system coding = Some ''http://loinc.org'') codings))"

record BloodPressureValues =
  bp_systolic :: number
  bp_diastolic :: number

text \<open>\<open>component.code?.coding?.[0]?.code\<close>\<close>

definition component_code :: "ObservationComponent \<Rightarrow> string option" where
  "component_code component =
     (case comp_code component of
        None \<Rightarrow> None
      | Some code \<Rightarrow>
          (case cc_coding code of
             None \<Rightarrow> None
           | Some [] \<Rightarrow> None
           | Some (coding # rest) \<Rightarrow> coding_code coding))"

text \<open>\<open>component.valueQuantity?.value\<close>\<close>

definition component_value :: "ObservationComponent \<Rightarrow> number option" where
  "component_value component =
     (case comp_valueQuantity component of
        None \<Rightarrow> None
      | Some quantity \<Rightarrow> q_value quantity)"

text \<open>
  The body of the \<open>forEach\<close> callback, with the two captured variables as the
  accumulator. \<open>code === '8480-6' && value\<close> needs a value that is present and truthy.
\<close>

definition extract_component :: "BloodPressureValues \<Rightarrow> ObservationComponent \<Rightarrow> BloodPressureValues" where
  "extract_component acc component =
     (let code = component_code component in
      case component_value component of
        None \<Rightarrow> acc
      | Some v \<Rightarrow>
          if code = Some ''8480-6'' \<and> truthy v then acc\<lparr>bp_systolic := v\<rparr>
          else if code = Some ''8462-4'' \<and> truthy v then acc\<lparr>bp_diastolic := v\<rparr>
          else acc)"

definition extractBloodPressureValues :: "Observation \<Rightarrow> BloodPressureValues" where
  "extractBloodPressureValues observation =
     (case obs_component observation of
        None \<Rightarrow> \<lparr>bp_systolic = Fin 0, bp_diastolic = Fin 0\<rparr>
      | Some components \<Rightarrow>
          foldl extract_component \<lparr>bp_systolic = Fin 0, bp_diastolic = Fin 0\<rparr> components)"

section \<open>Resources of the alert bots\<close>

record HumanName =
  hn_given :: "string list option"
  hn_family :: "string option"

record ContactPoint =
  cp_system :: "string option"
  cp_use :: "string option"
  cp_value :: "string option"

record Patient =
  pat_id :: "string option"
  pat_name :: "HumanName list option"
  pat_generalPractitioner :: "Reference list option"

record Practitioner =
  prac_id :: "string option"
  prac_name :: "HumanName list option"
  prac_telecom :: "ContactPoint list option"

record CareTeamParticipant =
  ctp_member :: "Reference option"

record CareTeam =
  ct_participant :: "CareTeamParticipant list option"

text \<open>
  A template literal is kept as its pieces: the literal text and the interpolated
  strings are bytes, an interpolated number stays a number (the decimal printing of a
  double is not modelled). The three long message templates of the bots
  (\<open>generateAlertMessage\<close>, \<open>generatePatientAlertMessage\<close>, \<open>generateDoctorEmailContent\<close>)
  only produce text that is passed on; their result is recorded as the template's
  name and arguments and is not expanded.
\<close>

datatype piece = Lit string | Num number

datatype content =
    Template "piece list"
  | AlertMessage Patient number number
  | PatientAlertMessage Patient number number
  | DoctorEmailHtml Patient Practitioner number number Observation
  | DoctorEmailText Patient Practitioner number number Observation

record Communication =
  com_id :: "string option"
  com_status :: string
  com_category :: "CodeableConcept list"
  com_priority :: string
  com_subject :: Reference
  com_recipient :: "Reference list option"
  com_sender :: "Reference option"
  com_topic :: CodeableConcept
  com_sent :: string
  com_payload :: "content list"
  com_basedOn :: "Reference list option"
  com_tag :: "Coding list"

record AuditEventAgent =
  aa_type :: CodeableConcept
  aa_who :: Reference
  aa_requestor :: bool

record AuditEventSource =
  as_observer :: Reference
  as_type :: "Coding list"

record AuditEventEntity =
  ae_what :: Reference
  ae_type :: Coding

record AuditEvent =
  au_type :: Coding
  au_subtype :: "Coding list"
  au_action :: string
  au_recorded :: string
  au_outcome :: string
  au_agent :: "AuditEventAgent list"
  au_source :: AuditEventSource
  au_entity :: "AuditEventEntity list"

datatype resource = CommunicationR Communication | AuditEventR AuditEvent

record SendEmailCommand =
  se_Source :: string
  se_ToAddresses :: "string list"
  se_CcAddresses :: "string list option"
  se_Subject :: content
  se_Html :: "content option"
  se_Text :: content
  se_Tags :: "(string \<times> string) list option"

section \<open>The collaborators: data store, mail sender, console, clock\<close>

text \<open>
  A run of a bot is a function from the history of its external calls to a result and
  the extended history. A rejected promise or a thrown exception is the result
  \<open>Inl e\<close>. The collaborators are not part of the repository: what each call
  answers is a field of the \<open>world\<close>, and may depend on the whole history, so that
  every behaviour of the store and of the mail sender is covered. TypeScript's generic
  \<open>readReference\<close> and \<open>searchResources\<close> are present at the resource types the
  code casts their results to.

  Console output is recorded by level and by the fixed text of the message, written
  without emoji and accents; the values printed after it are not recorded.
\<close>

datatype error = Error string

datatype event =
    ReadReference "Reference option"
  | SearchResources string "(string \<times> string option) list"
  | CreateResource resource
  | SesSend SendEmailCommand
  | ConsoleLog string
  | ConsoleError string

record world =
  readReference_Patient :: "event list \<Rightarrow> Reference option \<Rightarrow> error + Patient"
  readReference_Practitioner :: "event list \<Rightarrow> Reference option \<Rightarrow> error + Practitioner"
  searchResources_CareTeam :: "event list \<Rightarrow> (string \<times> string option) list \<Rightarrow> error + CareTeam list"
  searchResources_Practitioner :: "event list \<Rightarrow> (string \<times> string option) list \<Rightarrow> error + Practitioner list"
  createResource :: "event list \<Rightarrow> resource \<Rightarrow> error + resource"
  sesClient_send :: "event list \<Rightarrow> SendEmailCommand \<Rightarrow> error + string option"
  new_Date :: "event list \<Rightarrow> string"
  env_FROM_EMAIL :: "string option"
  env_ADMIN_EMAIL :: "string option"

type_synonym 'a io = "event list \<Rightarrow> (error + 'a) \<times> event list"

definition return :: "'a \<Rightarrow> 'a io" where
  "return x tr = (Inr x, tr)"

definition throw :: "error \<Rightarrow> 'a io" where
  "throw e tr = (Inl e, tr)"

text \<open>\<open>await m\<close> followed by the rest of the function body.\<close>

definition await :: "'a io \<Rightarrow> ('a \<Rightarrow> 'b io) \<Rightarrow> 'b io" where
  "await m f tr = (case m tr of (Inl e, tr') \<Rightarrow> (Inl e, tr') | (Inr x, tr') \<Rightarrow> f x tr')"

text \<open>\<open>try { m } catch (error) { h error }\<close>\<close>

definition try_catch :: "'a io \<Rightarrow> (error \<Rightarrow> 'a io) \<Rightarrow> 'a io" where
  "try_catch m h tr = (case m tr of (Inl e, tr') \<Rightarrow> h e tr' | (Inr x, tr') \<Rightarrow> (Inr x, tr'))"

text \<open>\<open>for (const x of xs) { await body x }\<close>\<close>

fun for_of :: "'a list \<Rightarrow> ('a \<Rightarrow> unit io) \<Rightarrow> unit io" where
  "for_of [] body tr = (Inr (), tr)"
| "for_of (x # xs) body tr =
     (case body x tr of (Inl e, tr') \<Rightarrow> (Inl e, tr') | (Inr u, tr') \<Rightarrow> for_of xs body tr')"

definition console_log :: "string \<Rightarrow> unit io" where
  "console_log msg tr = (Inr (), tr @ [ConsoleLog msg])"

definition console_error :: "string \<Rightarrow> unit io" where
  "console_error msg tr = (Inr (), tr @ [ConsoleError msg])"

definition medplum_readReference_Patient :: "world \<Rightarrow> Reference option \<Rightarrow> Patient io" where
  "medplum_readReference_Patient medplum ref tr =
     (readReference_Patient medplum tr ref, tr @ [ReadReference ref])"

definition medplum_readReference_Practitioner :: "world \<Rightarrow> Reference option \<Rightarrow> Practitioner io" where
  "medplum_readReference_Practitioner medplum ref tr =
     (readReference_Practitioner medplum tr ref, tr @ [ReadReference ref])"

definition medplum_searchResources_CareTeam ::
  "world \<Rightarrow> (string \<times> string option) list \<Rightarrow> CareTeam list io" where
  "medplum_searchResources_CareTeam medplum query tr =
     (searchResources_CareTeam medplum tr query, tr @ [SearchResources ''CareTeam'' query])"

definition medplum_searchResources_Practitioner ::
  "world \<Rightarrow> (string \<times> string option) list \<Rightarrow> Practitioner list io" where
  "medplum_searchResources_Practitioner medplum query tr =
     (searchResources_Practitioner medplum tr query, tr @ [SearchResources ''Practitioner'' query])"

definition medplum_createResource :: "world \<Rightarrow> resource \<Rightarrow> resource io" where
  "medplum_createResource medplum r tr = (createResource medplum tr r, tr @ [CreateResource r])"

definition sesClient_send_io :: "world \<Rightarrow> SendEmailCommand \<Rightarrow> string option io" where
  "sesClient_send_io w command tr = (sesClient_send w tr command, tr @ [SesSend command])"

text \<open>An interpolated string: \<open>undefined\<close> prints as the word.\<close>

definition interp :: "string option \<Rightarrow> string" where
  "interp s = (case s of None \<Rightarrow> ''undefined'' | Some t \<Rightarrow> t)"

text \<open>\<open>x.name?.[0]?.given?.[0]\<close> and \<open>x.name?.[0]?.family\<close>\<close>

definition first_given :: "HumanName list option \<Rightarrow> string option" where
  "first_given name =
     (case name of
        None \<Rightarrow> None
      | Some [] \<Rightarrow> None
      | Some (n # rest) \<Rightarrow>
          (case hn_given n of None \<Rightarrow> None | Some [] \<Rightarrow> None | Some (g # gs) \<Rightarrow> Some g))"

definition first_family :: "HumanName list option \<Rightarrow> string option" where
  "first_family name =
     (case name of None \<Rightarrow> None | Some [] \<Rightarrow> None | Some (n # rest) \<Rightarrow> hn_family n)"

text \<open>The \<open>meta.tag\<close> entry and the \<open>category\<close> entry shared by the communications.\<close>

definition tag_of :: "string \<Rightarrow> Coding" where
  "tag_of c = \<lparr>coding_system = Some ''http://epa-bienestar.com.ar/tags'',
              coding_code = Some c, coding_display = None\<rparr>"

definition communication_category :: "string \<Rightarrow> string \<Rightarrow> CodeableConcept" where
  "communication_category c d =
     \<lparr>cc_coding = Some [\<lparr>coding_system = Some ''http://terminology.hl7.org/CodeSystem/communication-category'',
                          coding_code = Some c, coding_display = Some d\<rparr>],
      cc_text = None\<rparr>"

text \<open>The references to a patient and to a practitioner, built from their \<open>id\<close>.\<close>

definition patient_reference :: "Patient \<Rightarrow> Reference" where
  "patient_reference patient =
     \<lparr>ref_reference = Some (''Patient/'' @ interp (pat_id patient)), ref_display = None\<rparr>"

definition practitioner_reference :: "Practitioner \<Rightarrow> Reference" where
  "practitioner_reference practitioner =
     \<lparr>ref_reference = Some (''Practitioner/'' @ interp (prac_id practitioner)), ref_display = None\<rparr>"

section \<open>The direct-search bot (blood-pressure-alert-bot.ts)\<close>

text \<open>The resource literal of \<open>createAlertCommunication\<close>; \<open>sent\<close> is the clock reading.\<close>

definition alert_communication ::
  "Patient \<Rightarrow> Observation \<Rightarrow> number \<Rightarrow> number \<Rightarrow> string \<Rightarrow> Communication" where
  "alert_communication patient observation systolic diastolic sent =
     (let alertMessage = AlertMessage patient systolic diastolic
      in \<lparr>com_id = None,
          com_status = ''completed'',
          com_category = [communication_category ''alert'' ''Alert''],
          com_priority = ''urgent'',
          com_subject = patient_reference patient,
          com_recipient = None,
          com_sender = None,
          com_topic = \<lparr>cc_coding = None,
                       cc_text = Some (''Alerta: Presi'' @ o_acute @ ''n Arterial Elevada'')\<rparr>,
          com_sent = sent,
          com_payload = [alertMessage],
          com_basedOn = Some [\<lparr>ref_reference = Some (''Observation/'' @ interp (obs_id observation)),
                               ref_display = None\<rparr>],
          com_tag = [tag_of ''hta-alert'']\<rparr>)"

definition createAlertCommunication ::
  "world \<Rightarrow> Patient \<Rightarrow> Observation \<Rightarrow> number \<Rightarrow> number \<Rightarrow> unit io" where
  "createAlertCommunication medplum patient observation systolic diastolic tr =
     (let communication =
            alert_communication patient observation systolic diastolic (new_Date medplum tr)
      in await (medplum_createResource medplum (CommunicationR communication))
           (\<lambda>created. return ()) tr)"

text \<open>The resource literal of \<open>createPractitionerNotification\<close>.\<close>

definition practitioner_notification ::
  "Practitioner \<Rightarrow> Patient \<Rightarrow> number \<Rightarrow> number \<Rightarrow> string \<Rightarrow> Communication" where
  "practitioner_notification practitioner patient systolic diastolic sent =
     \<lparr>com_id = None,
      com_status = ''completed'',
      com_category = [communication_category ''notification'' ''Notification''],
      com_priority = ''urgent'',
      com_subject = patient_reference patient,
      com_recipient = Some [practitioner_reference practitioner],
      com_sender = None,
      com_topic = \<lparr>cc_coding = None,
                   cc_text = Some (''Notificaci'' @ o_acute @ ''n: Paciente con HTA'')\<rparr>,
      com_sent = sent,
      com_payload =
        [Template
           [Lit (''Paciente '' @ interp (first_given (pat_name patient))
                 @ '' presenta presi'' @ o_acute @ ''n arterial elevada: ''),
            Num systolic, Lit ''/'', Num diastolic,
            Lit ('' mmHg. Requiere evaluaci'' @ o_acute @ ''n m'' @ e_acute @ ''dica.'')]],
      com_basedOn = None,
      com_tag = [tag_of ''practitioner-alert'']\<rparr>"

definition createPractitionerNotification ::
  "world \<Rightarrow> Practitioner \<Rightarrow> Patient \<Rightarrow> number \<Rightarrow> number \<Rightarrow> unit io" where
  "createPractitionerNotification medplum practitioner patient systolic diastolic tr =
     (let notification =
            practitioner_notification practitioner patient systolic diastolic (new_Date medplum tr)
      in await (medplum_createResource medplum (CommunicationR notification))
           (\<lambda>created. return ()) tr)"

definition notifyMedicalTeam :: "world \<Rightarrow> Patient \<Rightarrow> number \<Rightarrow> number \<Rightarrow> unit io" where
  "notifyMedicalTeam medplum patient systolic diastolic =
     await (medplum_searchResources_Practitioner medplum [(''patient'', pat_id patient)])
       (\<lambda>practitioners.
          for_of practitioners
            (\<lambda>practitioner.
               createPractitionerNotification medplum practitioner patient systolic diastolic))"

definition handleHighBloodPressure ::
  "world \<Rightarrow> Observation \<Rightarrow> number \<Rightarrow> number \<Rightarrow> unit io" where
  "handleHighBloodPressure medplum observation systolic diastolic =
     await (medplum_readReference_Patient medplum (obs_subject observation)) (\<lambda>patient.
     await (createAlertCommunication medplum patient observation systolic diastolic) (\<lambda>u1.
     await (notifyMedicalTeam medplum patient systolic diastolic) (\<lambda>u2.
     console_log ''ALERTA HTA: Paciente'')))"

definition handler :: "world \<Rightarrow> Observation \<Rightarrow> unit io" where
  "handler medplum observation =
     (if \<not> isBloodPressureObservation observation then return ()
      else
        let values = extractBloodPressureValues observation in
        if js_gt (bp_systolic values) (Fin 140) \<or> js_gt (bp_diastolic values) (Fin 90)
        then handleHighBloodPressure medplum observation (bp_systolic values) (bp_diastolic values)
        else return ())"

section \<open>The email bot (blood-pressure-email-alert-bot.ts)\<close>

text \<open>\<open>s.startsWith(p)\<close>\<close>

definition startsWith :: "string \<Rightarrow> string \<Rightarrow> bool" where
  "startsWith s p = (take (length p) s = p)"

text \<open>Truthiness of an optional string: \<open>undefined\<close> and the empty string are falsy.\<close>

definition truthy_string :: "string option \<Rightarrow> bool" where
  "truthy_string s = (case s of None \<Rightarrow> False | Some t \<Rightarrow> t \<noteq> [])"

text \<open>\<open>s || d\<close> for an optional string \<open>s\<close>\<close>

definition or_else :: "string option \<Rightarrow> string \<Rightarrow> string" where
  "or_else s d = (case s of None \<Rightarrow> d | Some t \<Rightarrow> if t = [] then d else t)"

text \<open>The resource literal of \<open>createBloodPressureCommunication\<close>.\<close>

definition patient_alert_communication ::
  "Patient \<Rightarrow> Observation \<Rightarrow> number \<Rightarrow> number \<Rightarrow> string \<Rightarrow> Communication" where
  "patient_alert_communication patient observation systolic diastolic sent =
     (let alertMessage = PatientAlertMessage patient systolic diastolic
      in \<lparr>com_id = None,
          com_status = ''completed'',
          com_category = [communication_category ''alert'' ''Alert''],
          com_priority = ''urgent'',
          com_subject = patient_reference patient,
          com_recipient = None,
          com_sender = None,
          com_topic = \<lparr>cc_coding = None,
                       cc_text = Some (''Alerta: Presi'' @ o_acute @ ''n Arterial Elevada'')\<rparr>,
          com_sent = sent,
          com_payload = [alertMessage],
          com_basedOn = Some [\<lparr>ref_reference = Some (''Observation/'' @ interp (obs_id observation)),
                               ref_display = None\<rparr>],
          com_tag = [tag_of ''hta-patient-alert'']\<rparr>)"

definition createBloodPressureCommunication ::
  "world \<Rightarrow> Patient \<Rightarrow> Observation \<Rightarrow> number \<Rightarrow> number \<Rightarrow> resource io" where
  "createBloodPressureCommunication medplum patient observation systolic diastolic tr =
     (let communication =
            patient_alert_communication patient observation systolic diastolic (new_Date medplum tr)
      in medplum_createResource medplum (CommunicationR communication) tr)"

text \<open>The callback \<open>p => p.member?.reference?.startsWith('Practitioner/')\<close>\<close>

definition is_practitioner_member :: "CareTeamParticipant \<Rightarrow> bool" where
  "is_practitioner_member p =
     (case ctp_member p of
        None \<Rightarrow> False
      | Some member \<Rightarrow>
          (case ref_reference member of
             None \<Rightarrow> False
           | Some reference \<Rightarrow> startsWith reference ''Practitioner/''))"

text \<open>\<open>careTeam.participant?.find(...)\<close>\<close>

definition practitionerParticipant :: "CareTeam \<Rightarrow> CareTeamParticipant option" where
  "practitionerParticipant careTeam =
     (case ct_participant careTeam of
        None \<Rightarrow> None
      | Some participants \<Rightarrow> find is_practitioner_member participants)"

text \<open>
  The body of the \<open>try\<close> block of \<open>findPrimaryDoctor\<close> after the CareTeam search: the
  member to read when \<open>careTeams.length > 0\<close> and
  \<open>practitionerParticipant?.member?.reference\<close> is truthy.
\<close>

definition careTeam_member :: "CareTeam list \<Rightarrow> Reference option" where
  "careTeam_member careTeams =
     (case careTeams of
        [] \<Rightarrow> None
      | careTeam # rest \<Rightarrow>
          (case practitionerParticipant careTeam of
             None \<Rightarrow> None
           | Some participant \<Rightarrow>
               (case ctp_member participant of
                  None \<Rightarrow> None
                | Some member \<Rightarrow>
                    if truthy_string (ref_reference member) then Some member else None)))"

text \<open>\<open>patient.generalPractitioner?.[0]\<close> when its \<open>reference\<close> is truthy.\<close>

definition generalPractitioner_0 :: "Patient \<Rightarrow> Reference option" where
  "generalPractitioner_0 patient =
     (case pat_generalPractitioner patient of
        None \<Rightarrow> None
      | Some [] \<Rightarrow> None
      | Some (gp # rest) \<Rightarrow> if truthy_string (ref_reference gp) then Some gp else None)"

definition findPrimaryDoctor :: "world \<Rightarrow> Patient \<Rightarrow> Practitioner option io" where
  "findPrimaryDoctor medplum patient =
     try_catch
       (await (medplum_searchResources_CareTeam medplum
                 [(''subject'', Some (''Patient/'' @ interp (pat_id patient))),
                  (''status'', Some ''active'')])
          (\<lambda>careTeams.
             case careTeam_member careTeams of
               Some member \<Rightarrow>
                 await (medplum_readReference_Practitioner medplum (Some member))
                   (\<lambda>practitioner. return (Some practitioner))
             | None \<Rightarrow>
                 (case generalPractitioner_0 patient of
                    Some gp \<Rightarrow>
                      await (medplum_readReference_Practitioner medplum (Some gp))
                        (\<lambda>practitioner. return (Some practitioner))
                  | None \<Rightarrow> return None)))
       (\<lambda>error.
          await (console_error ''Error finding primary doctor:'') (\<lambda>u. return None))"

definition getDoctorEmail :: "Practitioner \<Rightarrow> string option" where
  "getDoctorEmail doctor =
     (let emailContact =
            (case prac_telecom doctor of
               None \<Rightarrow> None
             | Some telecom \<Rightarrow>
                 find (\<lambda>contact. cp_system contact = Some ''email'' \<and> cp_use contact = Some ''work'')
                      telecom)
      in case emailContact of
           None \<Rightarrow> None
         | Some contact \<Rightarrow> if truthy_string (cp_value contact) then cp_value contact else None)"

definition audit_coding :: "string \<Rightarrow> string \<Rightarrow> string \<Rightarrow> Coding" where
  "audit_coding s c d = \<lparr>coding_system = Some s, coding_code = Some c, coding_display = Some d\<rparr>"

text \<open>The resource literal of \<open>logEmailSent\<close>; \<open>recorded\<close> is the clock reading.\<close>

definition audit_event :: "Patient \<Rightarrow> Practitioner \<Rightarrow> string \<Rightarrow> AuditEvent" where
  "audit_event patient recipient recorded =
     \<lparr>au_type = audit_coding ''http://terminology.hl7.org/CodeSystem/audit-event-type''
                  ''rest'' ''RESTful Operation'',
      au_subtype = [audit_coding ''http://epa-bienestar.com.ar/audit-codes''
                      ''email-sent'' ''Email Sent''],
      au_action = ''C'',
      au_recorded = recorded,
      au_outcome = ''0'',
      au_agent =
        [\<lparr>aa_type =
             \<lparr>cc_coding = Some [audit_coding
                  ''http://terminology.hl7.org/CodeSystem/extra-security-role-type''
                  ''humanuser'' ''human user''],
              cc_text = None\<rparr>,
           aa_who = \<lparr>ref_reference = None, ref_display = Some ''EPA Bienestar IA Bot''\<rparr>,
           aa_requestor = False\<rparr>],
      au_source =
        \<lparr>as_observer = \<lparr>ref_reference = None, ref_display = Some ''EPA Bienestar IA System''\<rparr>,
         as_type = [audit_coding ''http://terminology.hl7.org/CodeSystem/security-source-type''
                      ''4'' ''Application Server'']\<rparr>,
      au_entity =
        [\<lparr>ae_what = patient_reference patient,
           ae_type = audit_coding ''http://terminology.hl7.org/CodeSystem/audit-entity-type''
                       ''1'' ''Person''\<rparr>,
         \<lparr>ae_what = practitioner_reference recipient,
           ae_type = audit_coding ''http://terminology.hl7.org/CodeSystem/audit-entity-type''
                       ''1'' ''Person''\<rparr>]\<rparr>"

definition logEmailSent :: "world \<Rightarrow> Patient \<Rightarrow> Practitioner \<Rightarrow> string \<Rightarrow> unit io" where
  "logEmailSent medplum patient recipient messageId tr =
     (let auditEvent = audit_event patient recipient (new_Date medplum tr)
      in try_catch
           (await (medplum_createResource medplum (AuditEventR auditEvent)) (\<lambda>created.
            console_log ''Audit log creado para envio de email''))
           (\<lambda>error. console_error ''Error creando audit log:'') tr)"

text \<open>The \<open>SendEmailCommand\<close> of \<open>sendEmailToDoctor\<close>.\<close>

definition doctor_email_command ::
  "world \<Rightarrow> Patient \<Rightarrow> Practitioner \<Rightarrow> number \<Rightarrow> number \<Rightarrow> Observation \<Rightarrow> string \<Rightarrow> SendEmailCommand" where
  "doctor_email_command w patient doctor systolic diastolic observation doctorEmail =
     (let fromEmail = or_else (env_FROM_EMAIL w) ''alertas@epa-bienestar.com.ar'';
          adminEmail = or_else (env_ADMIN_EMAIL w) ''admin@epa-bienestar.com.ar''
      in \<lparr>se_Source = fromEmail,
          se_ToAddresses = [doctorEmail],
          se_CcAddresses = Some [adminEmail],
          se_Subject =
            Template [Lit (rotating_light @ '' EPA Bienestar IA - Alerta HTA: ''
                           @ interp (first_given (pat_name patient)) @ '' ''
                           @ interp (first_family (pat_name patient)))],
          se_Html = Some (DoctorEmailHtml patient doctor systolic diastolic observation),
          se_Text = DoctorEmailText patient doctor systolic diastolic observation,
          se_Tags = Some [(''Type'', ''BloodPressureAlert''),
                          (''PatientId'', or_else (pat_id patient) ''unknown'')]\<rparr>)"

definition sendEmailToDoctor ::
  "world \<Rightarrow> Patient \<Rightarrow> Practitioner \<Rightarrow> number \<Rightarrow> number \<Rightarrow> Observation \<Rightarrow> unit io" where
  "sendEmailToDoctor medplum patient doctor systolic diastolic observation =
     (case getDoctorEmail doctor of
        None \<Rightarrow> console_log ''No se encontro email del medico''
      | Some doctorEmail \<Rightarrow>
          (let command =
                 doctor_email_command medplum patient doctor systolic diastolic observation doctorEmail
           in try_catch
                (await (sesClient_send_io medplum command) (\<lambda>messageId.
                 await (console_log ''Email enviado exitosamente:'') (\<lambda>u.
                 logEmailSent medplum patient doctor (or_else messageId ''unknown''))))
                (\<lambda>error.
                   await (console_error ''Error enviando email:'') (\<lambda>u. throw error))))"

text \<open>The resource literal of \<open>createDoctorNotificationCommunication\<close>.\<close>

definition doctor_notification ::
  "Patient \<Rightarrow> Practitioner \<Rightarrow> number \<Rightarrow> number \<Rightarrow> string \<Rightarrow> Communication" where
  "doctor_notification patient doctor systolic diastolic sent =
     \<lparr>com_id = None,
      com_status = ''completed'',
      com_category = [communication_category ''notification'' ''Notification''],
      com_priority = ''urgent'',
      com_subject = patient_reference patient,
      com_recipient = Some [practitioner_reference doctor],
      com_sender = Some \<lparr>ref_reference = None, ref_display = Some ''Sistema EPA Bienestar IA''\<rparr>,
      com_topic = \<lparr>cc_coding = None,
                   cc_text = Some (''Notificaci'' @ o_acute @ ''n m'' @ e_acute
                                   @ ''dica: Presi'' @ o_acute @ ''n arterial elevada'')\<rparr>,
      com_sent = sent,
      com_payload =
        [Template
           [Lit (''Email enviado al Dr./Dra. '' @ interp (first_given (prac_name doctor)) @ '' ''
                 @ interp (first_family (prac_name doctor))
                 @ '' notificando presi'' @ o_acute @ ''n arterial elevada del paciente ''
                 @ interp (first_given (pat_name patient)) @ '' ''
                 @ interp (first_family (pat_name patient)) @ '': ''),
            Num systolic, Lit ''/'', Num diastolic, Lit '' mmHg'']],
      com_basedOn = None,
      com_tag = [tag_of ''doctor-email-notification'']\<rparr>"

definition createDoctorNotificationCommunication ::
  "world \<Rightarrow> Patient \<Rightarrow> Practitioner \<Rightarrow> number \<Rightarrow> number \<Rightarrow> unit io" where
  "createDoctorNotificationCommunication medplum patient doctor systolic diastolic tr =
     (let notification = doctor_notification patient doctor systolic diastolic (new_Date medplum tr)
      in await (medplum_createResource medplum (CommunicationR notification))
           (\<lambda>created. return ()) tr)"

text \<open>The \<open>SendEmailCommand\<close> of \<open>sendEmailToSystemAdmin\<close>.\<close>

definition admin_email_command :: "world \<Rightarrow> Patient \<Rightarrow> number \<Rightarrow> number \<Rightarrow> SendEmailCommand" where
  "admin_email_command w patient systolic diastolic =
     (let fromEmail = or_else (env_FROM_EMAIL w) ''alertas@epa-bienestar.com.ar'';
          adminEmail = or_else (env_ADMIN_EMAIL w) ''admin@epa-bienestar.com.ar''
      in \<lparr>se_Source = fromEmail,
          se_ToAddresses = [adminEmail],
          se_CcAddresses = None,
          se_Subject =
            Template [Lit (rotating_light
                           @ '' EPA Bienestar IA - Paciente sin m'' @ e_acute
                           @ ''dico asignado con HTA: '' @ interp (first_given (pat_name patient)))],
          se_Html = None,
          se_Text =
            Template
              [Lit (''ALERTA: El paciente '' @ interp (first_given (pat_name patient)) @ '' ''
                    @ interp (first_family (pat_name patient))
                    @ '' presenta presi'' @ o_acute @ ''n arterial elevada (''),
               Num systolic, Lit ''/'', Num diastolic,
               Lit ('' mmHg) pero no tiene m'' @ e_acute
                    @ ''dico de cabecera asignado. Requiere atenci'' @ o_acute
                    @ ''n administrativa.'')],
          se_Tags = None\<rparr>)"

definition sendEmailToSystemAdmin :: "world \<Rightarrow> Patient \<Rightarrow> number \<Rightarrow> number \<Rightarrow> unit io" where
  "sendEmailToSystemAdmin w patient systolic diastolic =
     try_catch
       (await (sesClient_send_io w (admin_email_command w patient systolic diastolic)) (\<lambda>result.
        console_log ''Email enviado a administracion''))
       (\<lambda>error. console_error ''Error enviando email a admin:'')"

definition handleHighBloodPressureWithEmail ::
  "world \<Rightarrow> Observation \<Rightarrow> number \<Rightarrow> number \<Rightarrow> unit io" where
  "handleHighBloodPressureWithEmail medplum observation systolic diastolic =
     await (console_log ''Iniciando proceso de alertas...'') (\<lambda>u1.
     await (medplum_readReference_Patient medplum (obs_subject observation)) (\<lambda>patient.
     await (console_log ''Paciente obtenido:'') (\<lambda>u2.
     await (createBloodPressureCommunication medplum patient observation systolic diastolic)
       (\<lambda>communication.
     await (console_log ''Communication creada:'') (\<lambda>u3.
     await (findPrimaryDoctor medplum patient) (\<lambda>primaryDoctor.
       case primaryDoctor of
         Some doctor \<Rightarrow>
           await (console_log ''Medico encontrado:'') (\<lambda>u4.
           await (sendEmailToDoctor medplum patient doctor systolic diastolic observation) (\<lambda>u5.
           createDoctorNotificationCommunication medplum patient doctor systolic diastolic))
       | None \<Rightarrow>
           await (console_log ''No se encontro medico de cabecera'') (\<lambda>u4.
           sendEmailToSystemAdmin medplum patient systolic diastolic)))))))"

definition handler_email :: "world \<Rightarrow> Observation \<Rightarrow> unit io" where
  "handler_email medplum observation =
     await (console_log ''Procesando observacion:'') (\<lambda>u1.
       if \<not> isBloodPressureObservation observation
       then console_log ''No es observacion de presion arterial''
       else
         let values = extractBloodPressureValues observation in
         await (console_log ''Valores: Sistolica, Diastolica'') (\<lambda>u2.
           if js_gt (bp_systolic values) (Fin 140) \<or> js_gt (bp_diastolic values) (Fin 90)
           then
             await (console_log ''Valores elevados detectados'') (\<lambda>u3.
               handleHighBloodPressureWithEmail medplum observation
                 (bp_systolic values) (bp_diastolic values))
           else console_log ''Valores normales''))"

section \<open>Measurement mapper (get-measurement-object.ts)\<close>

text \<open>The two case labels of the \<open>switch\<close> that are not ASCII.\<close>

definition Presion_Arterial :: string where
  "Presion_Arterial = ''Presi'' @ o_acute @ ''n Arterial''"

definition Frecuencia_Cardiaca :: string where
  "Frecuencia_Cardiaca = ''Frecuencia Card'' @ i_acute @ ''aca''"

definition loinc_coding :: "string \<Rightarrow> string \<Rightarrow> Coding" where
  "loinc_coding c d =
     \<lparr>coding_system = Some ''http://loinc.org'', coding_code = Some c, coding_display = Some d\<rparr>"

definition ucum_quantity :: "string \<Rightarrow> number \<Rightarrow> Quantity" where
  "ucum_quantity u v =
     \<lparr>q_value = Some v, q_unit = Some u, q_system = Some ''http://unitsofmeasure.org'',
      q_code = Some u\<rparr>"

text \<open>
  \<open>Number\<close> is the conversion function of the language, which is not code of the
  repository: it is a parameter, applied to an optional string because \<open>secondValue\<close>
  may be \<open>undefined\<close>. Nothing is assumed about what it returns; its result is read
  in the type \<open>number\<close>, where the two zeros of a double are the one real 0. \<open>date\<close>
  is the reading of the clock, \<open>new Date().toISOString()\<close>, taken at the start of the
  call.
\<close>

definition getMeasurementObject ::
  "(string option \<Rightarrow> number) \<Rightarrow> string \<Rightarrow> Reference \<Rightarrow> string \<Rightarrow> string \<Rightarrow> string option
     \<Rightarrow> Observation" where
  "getMeasurementObject Number date subject type firstValue secondValue =
     (if type = Presion_Arterial then
        \<lparr>obs_resourceType = ''Observation'',
         obs_id = None,
         obs_subject = Some subject,
         obs_category =
           Some [\<lparr>cc_coding =
                    Some [\<lparr>coding_system = Some ''http://terminology.hl7.org/CodeSystem/observation-category'',
                           coding_code = Some ''vital-signs'',
                           coding_display = Some ''Vital Signs''\<rparr>],
                  cc_text = None\<rparr>],
         obs_code = Some \<lparr>cc_coding = Some [loinc_coding ''85354-9'' ''Blood Pressure''],
                          cc_text = Some ''Blood Pressure''\<rparr>,
         obs_component =
           Some [\<lparr>comp_code = Some \<lparr>cc_coding = Some [loinc_coding ''8462-4'' ''Diastolic Blood Pressure''],
                                     cc_text = Some ''Diastolic Blood Pressure''\<rparr>,
                  comp_valueQuantity = Some (ucum_quantity ''mm[Hg]'' (Number (Some firstValue)))\<rparr>,
                 \<lparr>comp_code = Some \<lparr>cc_coding = Some [loinc_coding ''8480-6'' ''Systolic Blood Pressure''],
                                     cc_text = Some ''Systolic Blood Pressure''\<rparr>,
                  comp_valueQuantity = Some (ucum_quantity ''mm[Hg]'' (Number secondValue))\<rparr>],
         obs_valueQuantity = None,
         obs_effectiveDateTime = Some date,
         obs_status = Some ''final''\<rparr>
      else if type = ''Temperatura Axilar'' then
        \<lparr>obs_resourceType = ''Observation'',
         obs_id = None,
         obs_subject = Some subject,
         obs_category = None,
         obs_code = Some \<lparr>cc_coding = Some [loinc_coding ''8310-5'' ''Body temperature'',
                                             loinc_coding ''8331-1'' ''Oral temperature''],
                          cc_text = Some ''Body temperature''\<rparr>,
         obs_component = None,
         obs_valueQuantity = Some (ucum_quantity ''Cel'' (Number (Some firstValue))),
         obs_effectiveDateTime = Some date,
         obs_status = Some ''final''\<rparr>
      else if type = ''Altura'' then
        \<lparr>obs_resourceType = ''Observation'',
         obs_id = None,
         obs_subject = Some subject,
         obs_category = None,
         obs_code = Some \<lparr>cc_coding = Some [loinc_coding ''8302-2'' ''Body Height''],
                          cc_text = Some ''Body Height''\<rparr>,
         obs_component = None,
         obs_valueQuantity = Some (ucum_quantity ''cm'' (Number (Some firstValue))),
         obs_effectiveDateTime = Some date,
         obs_status = Some ''final''\<rparr>
      else if type = ''Frecuencia Respiratoria'' then
        \<lparr>obs_resourceType = ''Observation'',
         obs_id = None,
         obs_subject = Some subject,
         obs_category = None,
         obs_code = Some \<lparr>cc_coding = Some [loinc_coding ''9279-1'' ''Respiratory rate''],
                          cc_text = Some ''Respiratory rate''\<rparr>,
         obs_component = None,
         obs_valueQuantity = Some (ucum_quantity ''/min'' (Number (Some firstValue))),
         obs_effectiveDateTime = Some date,
         obs_status = Some ''final''\<rparr>
      else if type = Frecuencia_Cardiaca then
        \<lparr>obs_resourceType = ''Observation'',
         obs_id = None,
         obs_subject = Some subject,
         obs_category = None,
         obs_code = Some \<lparr>cc_coding = Some [loinc_coding ''8867-4'' ''Heart rate''],
                          cc_text = Some ''Heart rate''\<rparr>,
         obs_component = None,
         obs_valueQuantity = Some (ucum_quantity ''/min'' (Number (Some firstValue))),
         obs_effectiveDateTime = Some date,
         obs_status = Some ''final''\<rparr>
      else if type = ''Peso'' then
        \<lparr>obs_resourceType = ''Observation'',
         obs_id = None,
         obs_subject = Some subject,
         obs_category = None,
         obs_code = Some \<lparr>cc_coding = Some [loinc_coding ''29463-7'' ''Body Weight''],
                          cc_text = Some ''Body Weight''\<rparr>,
         obs_component = None,
         obs_valueQuantity = Some (ucum_quantity ''kg'' (Number (Some firstValue))),
         obs_effectiveDateTime = Some date,
         obs_status = Some ''final''\<rparr>
      else
        \<lparr>obs_resourceType = ''Observation'',
         obs_id = None,
         obs_subject = None,
         obs_category = None,
         obs_code = None,
         obs_component = None,
         obs_valueQuantity = None,
         obs_effectiveDateTime = None,
         obs_status = None\<rparr>)"

section \<open>Notions used to state the properties\<close>

text \<open>The events a run adds to the history it starts from.\<close>

definition new_events :: "'a io \<Rightarrow> event list \<Rightarrow> event list" where
  "new_events m tr = drop (length tr) (snd (m tr))"

text \<open>A run only ever appends to the history.\<close>

definition grows :: "'a io \<Rightarrow> bool" where
  "grows m = (\<forall>tr. \<exists>evs. snd (m tr) = tr @ evs)"

text \<open>
  A component carries a value for a code when its first coding has that code and its
  value is present and truthy.
\<close>

definition carries :: "string \<Rightarrow> ObservationComponent \<Rightarrow> bool" where
  "carries c component =
     (component_code component = Some c \<and>
      (case component_value component of None \<Rightarrow> False | Some v \<Rightarrow> truthy v))"

definition value_or_0 :: "ObservationComponent \<Rightarrow> number" where
  "value_or_0 component = (case component_value component of None \<Rightarrow> Fin 0 | Some v \<Rightarrow> v)"

text \<open>The value of the last element of a list of components, 0 for the empty list.\<close>

definition last_value :: "ObservationComponent list \<Rightarrow> number" where
  "last_value components =
     (case rev components of [] \<Rightarrow> Fin 0 | component # earlier \<Rightarrow> value_or_0 component)"

definition components_of :: "Observation \<Rightarrow> ObservationComponent list" where
  "components_of observation =
     (case obs_component observation of None \<Rightarrow> [] | Some components \<Rightarrow> components)"

text \<open>
  The reading of the specification's sentence on extraction: the value of the last
  component whose first coding has the code, whatever that value is, and 0 when the
  component or its value is missing.
\<close>

definition spec_extract :: "string \<Rightarrow> Observation \<Rightarrow> number" where
  "spec_extract c observation =
     last_value (filter (\<lambda>component. component_code component = Some c) (components_of observation))"

text \<open>\<open>observation.code.coding[0].code\<close>, when all of it is there.\<close>

definition code_coding_0_code :: "Observation \<Rightarrow> string option" where
  "code_coding_0_code observation =
     (case obs_code observation of
        None \<Rightarrow> None
      | Some code \<Rightarrow>
          (case cc_coding code of
             None \<Rightarrow> None
           | Some [] \<Rightarrow> None
           | Some (coding # rest) \<Rightarrow> coding_code coding))"

text \<open>
  The LOINC table of the specification's section 4.1, as the codes it lists for each
  measurement label.
\<close>

definition code_coding_codes :: "Observation \<Rightarrow> string option list" where
  "code_coding_codes observation =
     (case obs_code observation of
        None \<Rightarrow> []
      | Some code \<Rightarrow>
          (case cc_coding code of None \<Rightarrow> [] | Some codings \<Rightarrow> map coding_code codings))"

definition spec_loinc_table :: "string \<Rightarrow> string list" where
  "spec_loinc_table type =
     (if type = Presion_Arterial then [''8462-4'', ''8480-6'']
      else if type = ''Temperatura Axilar'' then [''8310-5'', ''8331-1'']
      else if type = ''Altura'' then [''8302-2'']
      else if type = ''Frecuencia Respiratoria'' then [''9279-1'']
      else if type = Frecuencia_Cardiaca then [''8867-4'']
      else if type = ''Peso'' then [''29463-7'']
      else [])"

definition recognized_labels :: "string list" where
  "recognized_labels =
     [Presion_Arterial, ''Temperatura Axilar'', ''Altura'', ''Frecuencia Respiratoria'',
      Frecuencia_Cardiaca, ''Peso'']"

definition stub_observation :: Observation where
  "stub_observation =
     \<lparr>obs_resourceType = ''Observation'', obs_id = None, obs_subject = None, obs_category = None,
      obs_code = None, obs_component = None, obs_valueQuantity = None,
      obs_effectiveDateTime = None, obs_status = None\<rparr>"

text \<open>
  The history after the notification loop has handled the practitioners \<open>ps\<close>, one
  create call each, from the history \<open>tr\<close>.
\<close>

fun fanout_history ::
  "world \<Rightarrow> Patient \<Rightarrow> number \<Rightarrow> number \<Rightarrow> Practitioner list \<Rightarrow> event list \<Rightarrow> event list" where
  "fanout_history w patient s d [] tr = tr"
| "fanout_history w patient s d (p # ps) tr =
     fanout_history w patient s d ps
       (tr @ [CreateResource (CommunicationR (practitioner_notification p patient s d (new_Date w tr)))])"

text \<open>
  What the store answers to the create call for the \<open>i\<close>-th practitioner of \<open>ps\<close>, when
  the loop started at \<open>tr\<close> has reached it.
\<close>

definition fanout_outcome ::
  "world \<Rightarrow> Patient \<Rightarrow> number \<Rightarrow> number \<Rightarrow> Practitioner list \<Rightarrow> event list \<Rightarrow> nat \<Rightarrow> error + resource" where
  "fanout_outcome w patient s d ps tr i =
     (let h = fanout_history w patient s d (take i ps) tr
      in createResource w h
           (CommunicationR (practitioner_notification (ps ! i) patient s d (new_Date w h))))"

definition succeeded :: "error + 'a \<Rightarrow> bool" where
  "succeeded r = (case r of Inl e \<Rightarrow> False | Inr x \<Rightarrow> True)"

text \<open>
  The recipients of the communications tagged \<open>practitioner-alert\<close> that a list of
  events creates, in order.
\<close>

definition practitioner_alert_recipients :: "event list \<Rightarrow> Reference list" where
  "practitioner_alert_recipients evs =
     concat (map (\<lambda>ev. case ev of
                          CreateResource (CommunicationR c) \<Rightarrow>
                            if com_tag c = [tag_of ''practitioner-alert'']
                            then (case com_recipient c of None \<Rightarrow> [] | Some rs \<Rightarrow> rs)
                            else []
                        | _ \<Rightarrow> []) evs)"

definition is_create :: "event \<Rightarrow> bool" where
  "is_create ev = (case ev of CreateResource r \<Rightarrow> True | _ \<Rightarrow> False)"

text \<open>The query of the CareTeam search and the participants of a care team.\<close>

definition careTeam_query :: "Patient \<Rightarrow> (string \<times> string option) list" where
  "careTeam_query patient =
     [(''subject'', Some (''Patient/'' @ interp (pat_id patient))), (''status'', Some ''active'')]"

definition participants_of :: "CareTeam \<Rightarrow> CareTeamParticipant list" where
  "participants_of careTeam =
     (case ct_participant careTeam of None \<Rightarrow> [] | Some participants \<Rightarrow> participants)"

text \<open>
  Reading a practitioner reference inside \<open>findPrimaryDoctor\<close> from the history \<open>tr\<close>:
  the practitioner when the store answers, \<open>null\<close> and an error line on the console
  when it raises.
\<close>

definition read_or_null :: "world \<Rightarrow> Reference \<Rightarrow> event list \<Rightarrow> (error + Practitioner option) \<times> event list" where
  "read_or_null w ref tr =
     (case readReference_Practitioner w tr (Some ref) of
        Inl e \<Rightarrow> (Inr None, tr @ [ReadReference (Some ref), ConsoleError ''Error finding primary doctor:''])
      | Inr practitioner \<Rightarrow> (Inr (Some practitioner), tr @ [ReadReference (Some ref)]))"

text \<open>
  The histories of a run of the email handler from \<open>tr\<close> on an elevated reading: when
  it reads the patient, when it stores the patient alert, and when it starts looking
  for the doctor.
\<close>

definition email_history_1 :: "event list \<Rightarrow> event list" where
  "email_history_1 tr =
     tr @ [ConsoleLog ''Procesando observacion:'',
           ConsoleLog ''Valores: Sistolica, Diastolica'',
           ConsoleLog ''Valores elevados detectados'',
           ConsoleLog ''Iniciando proceso de alertas...'']"

definition email_history_2 :: "Observation \<Rightarrow> event list \<Rightarrow> event list" where
  "email_history_2 obs tr =
     email_history_1 tr @ [ReadReference (obs_subject obs), ConsoleLog ''Paciente obtenido:'']"

definition email_history_3 ::
  "world \<Rightarrow> Patient \<Rightarrow> Observation \<Rightarrow> number \<Rightarrow> number \<Rightarrow> event list \<Rightarrow> event list" where
  "email_history_3 w patient obs s d tr =
     email_history_2 obs tr
       @ [CreateResource (CommunicationR
            (patient_alert_communication patient obs s d (new_Date w (email_history_2 obs tr)))),
          ConsoleLog ''Communication creada:'']"

text \<open>
  The run of the email handler from \<open>tr\<close> on \<open>obs\<close> finds an elevated blood-pressure
  reading \<open>s\<close>/\<open>d\<close>, reads \<open>patient\<close>, stores the patient alert, and its doctor lookup
  returns \<open>doctor\<close> (a practitioner or \<open>null\<close>) at the history \<open>t\<close>.
\<close>

definition doctor_lookup ::
  "world \<Rightarrow> Observation \<Rightarrow> number \<Rightarrow> number \<Rightarrow> event list \<Rightarrow> Patient \<Rightarrow> Practitioner option \<Rightarrow> event list \<Rightarrow> bool" where
  "doctor_lookup w obs s d tr patient doctor t =
     (isBloodPressureObservation obs
      \<and> extractBloodPressureValues obs = \<lparr>bp_systolic = s, bp_diastolic = d\<rparr>
      \<and> (js_gt s (Fin 140) \<or> js_gt d (Fin 90))
      \<and> readReference_Patient w (email_history_1 tr) (obs_subject obs) = Inr patient
      \<and> succeeded (createResource w (email_history_2 obs tr)
           (CommunicationR (patient_alert_communication patient obs s d
              (new_Date w (email_history_2 obs tr)))))
      \<and> findPrimaryDoctor w patient (email_history_3 w patient obs s d tr) = (Inr doctor, t))"

definition telecom_of :: "Practitioner \<Rightarrow> ContactPoint list" where
  "telecom_of doctor = (case prac_telecom doctor of None \<Rightarrow> [] | Some telecom \<Rightarrow> telecom)"

definition is_send :: "event \<Rightarrow> bool" where
  "is_send ev = (case ev of SesSend command \<Rightarrow> True | _ \<Rightarrow> False)"

definition is_audit_create :: "event \<Rightarrow> bool" where
  "is_audit_create ev = (case ev of CreateResource (AuditEventR a) \<Rightarrow> True | _ \<Rightarrow> False)"

section \<open>Sample data\<close>

definition loinc :: "string \<Rightarrow> Coding" where
  "loinc c = \<lparr>coding_system = Some ''http://loinc.org'', coding_code = Some c, coding_display = None\<rparr>"

definition bp_component :: "string \<Rightarrow> number \<Rightarrow> ObservationComponent" where
  "bp_component c v =
     \<lparr>comp_code = Some \<lparr>cc_coding = Some [loinc c], cc_text = None\<rparr>,
      comp_valueQuantity = Some \<lparr>q_value = Some v, q_unit = Some ''mm[Hg]'',
                                 q_system = Some ''http://unitsofmeasure.org'',
                                 q_code = Some ''mm[Hg]''\<rparr>\<rparr>"

definition bp_observation :: "ObservationComponent list \<Rightarrow> Observation" where
  "bp_observation components =
     \<lparr>obs_resourceType = ''Observation'',
      obs_id = Some ''obs-1'',
      obs_subject = Some \<lparr>ref_reference = Some ''Patient/p1'', ref_display = None\<rparr>,
      obs_category = None,
      obs_code = Some \<lparr>cc_coding = Some [loinc ''85354-9''], cc_text = Some ''Blood Pressure''\<rparr>,
      obs_component = Some components,
      obs_valueQuantity = None,
      obs_effectiveDateTime = Some ''2023-07-16T10:00:00.000Z'',
      obs_status = Some ''final''\<rparr>"

text \<open>
  A conversion to run the mapper on: \<open>undefined\<close> gives NaN and a string of one to
  fifteen decimal digits gives the integer it writes, as the language's \<open>Number\<close>
  does (such an integer is below \<open>2^53\<close>); on every other string it is NaN, which
  is not said of \<open>Number\<close>.
\<close>

definition sample_Number :: "string option \<Rightarrow> number" where
  "sample_Number v =
     (case v of
        None \<Rightarrow> NaN
      | Some s \<Rightarrow>
          if s \<noteq> [] \<and> length s \<le> 15 \<and> list_all (\<lambda>c. c \<in> set ''0123456789'') s
          then Fin (real (foldl (\<lambda>acc c. acc * 10 + (of_char c - 48)) (0::nat) s))
          else NaN)"

definition patient_ref_1 :: Reference where
  "patient_ref_1 = \<lparr>ref_reference = Some ''Patient/p1'', ref_display = None\<rparr>"

definition patient_1 :: Patient where
  "patient_1 =
     \<lparr>pat_id = Some ''p1'',
      pat_name = Some [\<lparr>hn_given = Some [''Ana''], hn_family = Some ''Paz''\<rparr>],
      pat_generalPractitioner = None\<rparr>"

definition doctor_1 :: Practitioner where
  "doctor_1 =
     \<lparr>prac_id = Some ''d1'',
      prac_name = Some [\<lparr>hn_given = Some [''Luis''], hn_family = Some ''Gil''\<rparr>],
      prac_telecom = Some [\<lparr>cp_system = Some ''email'', cp_use = Some ''work'',
                            cp_value = Some ''luis@example.org''\<rparr>]\<rparr>"

definition doctor_2 :: Practitioner where
  "doctor_2 =
     \<lparr>prac_id = Some ''d2'',
      prac_name = Some [\<lparr>hn_given = Some [''Eva''], hn_family = Some ''Sol''\<rparr>],
      prac_telecom = Some [\<lparr>cp_system = Some ''phone'', cp_use = Some ''work'',
                            cp_value = Some ''555-0100''\<rparr>]\<rparr>"

definition doctor_3 :: Practitioner where
  "doctor_3 = \<lparr>prac_id = Some ''d3'', prac_name = None, prac_telecom = None\<rparr>"

definition careTeam_1 :: CareTeam where
  "careTeam_1 =
     \<lparr>ct_participant =
        Some [\<lparr>ctp_member = Some \<lparr>ref_reference = Some ''RelatedPerson/r1'', ref_display = None\<rparr>\<rparr>,
              \<lparr>ctp_member = Some \<lparr>ref_reference = Some ''Practitioner/d1'', ref_display = None\<rparr>\<rparr>]\<rparr>"

text \<open>A world in which every call succeeds.\<close>

definition world_ok :: world where
  "world_ok =
     \<lparr>readReference_Patient = (\<lambda>h r. Inr patient_1),
      readReference_Practitioner = (\<lambda>h r. Inr doctor_1),
      searchResources_CareTeam = (\<lambda>h q. Inr [careTeam_1]),
      searchResources_Practitioner = (\<lambda>h q. Inr [doctor_1, doctor_2, doctor_3]),
      createResource = (\<lambda>h r. Inr r),
      sesClient_send = (\<lambda>h c. Inr (Some ''msg-1'')),
      new_Date = (\<lambda>h. ''2023-07-16T10:00:00.000Z''),
      env_FROM_EMAIL = None,
      env_ADMIN_EMAIL = None\<rparr>"

text \<open>A world whose store refuses every write once two calls have been made.\<close>

definition world_write_fails :: world where
  "world_write_fails =
     world_ok\<lparr>createResource := (\<lambda>h r. if 2 \<le> length h then Inl (Error ''write failed'') else Inr r)\<rparr>"

text \<open>Worlds in which one collaborator raises.\<close>

definition world_search_fails :: world where
  "world_search_fails =
     world_ok\<lparr>searchResources_CareTeam := (\<lambda>h q. Inl (Error ''store unavailable''))\<rparr>"

definition world_read_fails :: world where
  "world_read_fails =
     world_ok\<lparr>readReference_Practitioner := (\<lambda>h r. Inl (Error ''not found''))\<rparr>"

definition world_mail_fails :: world where
  "world_mail_fails = world_ok\<lparr>sesClient_send := (\<lambda>h c. Inl (Error ''SES rejected''))\<rparr>"

text \<open>A world without care teams, and one whose care team leads to a doctor without work email.\<close>

definition world_no_doctor :: world where
  "world_no_doctor =
     world_ok\<lparr>searchResources_CareTeam := (\<lambda>h q. Inr []),
              sesClient_send := (\<lambda>h c. Inl (Error ''SES rejected''))\<rparr>"

definition world_doctor_2 :: world where
  "world_doctor_2 = world_ok\<lparr>readReference_Practitioner := (\<lambda>h r. Inr doctor_2)\<rparr>"

definition obs_150_95 :: Observation where
  "obs_150_95 = bp_observation [bp_component ''8480-6'' (Fin 150), bp_component ''8462-4'' (Fin 95)]"

section \<open>Unfolding the sample data\<close>

lemmas sample_defs = bp_observation_def bp_component_def loinc_def patient_1_def doctor_1_def
  doctor_2_def doctor_3_def careTeam_1_def patient_ref_1_def

lemmas extract_defs = extractBloodPressureValues_def extract_component_def component_code_def
  component_value_def isBloodPressureObservation_def

lemmas world_defs = world_ok_def world_write_fails_def world_search_fails_def world_read_fails_def
  world_mail_fails_def world_no_doctor_def world_doctor_2_def

lemmas lookup_defs = careTeam_member_def practitionerParticipant_def is_practitioner_member_def
  startsWith_def truthy_string_def generalPractitioner_0_def careTeam_query_def interp_def

lemma obs_150_95_facts:
  "isBloodPressureObservation obs_150_95"
  "extractBloodPressureValues obs_150_95 = \<lparr>bp_systolic = Fin 150, bp_diastolic = Fin 95\<rparr>"
  "obs_subject obs_150_95 = Some patient_ref_1"
  by (simp_all add: obs_150_95_def extract_defs sample_defs)

section \<open>Runs only append to the history\<close>

lemma growsI: "(\<And>tr. \<exists>evs. snd (m tr) = tr @ evs) \<Longrightarrow> grows m"
  by (simp add: grows_def)

lemma growsD: "grows m \<Longrightarrow> \<exists>evs. snd (m tr) = tr @ evs"
  by (simp add: grows_def)

lemma grows_return: "grows (return x)"
  by (simp add: grows_def return_def)

lemma grows_throw: "grows (throw e)"
  by (simp add: grows_def throw_def)

lemma grows_console_log: "grows (console_log msg)"
  by (simp add: grows_def console_log_def)

lemma grows_console_error: "grows (console_error msg)"
  by (simp add: grows_def console_error_def)

lemma grows_createResource: "grows (medplum_createResource w r)"
  by (simp add: grows_def medplum_createResource_def)

lemma grows_readPatient: "grows (medplum_readReference_Patient w r)"
  by (simp add: grows_def medplum_readReference_Patient_def)

lemma grows_readPractitioner: "grows (medplum_readReference_Practitioner w r)"
  by (simp add: grows_def medplum_readReference_Practitioner_def)

lemma grows_searchCareTeam: "grows (medplum_searchResources_CareTeam w q)"
  by (simp add: grows_def medplum_searchResources_CareTeam_def)

lemma grows_searchPractitioner: "grows (medplum_searchResources_Practitioner w q)"
  by (simp add: grows_def medplum_searchResources_Practitioner_def)

lemma grows_send: "grows (sesClient_send_io w c)"
  by (simp add: grows_def sesClient_send_io_def)

lemma grows_await:
  assumes "grows m" and "\<And>x. grows (f x)"
  shows "grows (await m f)"
proof (rule growsI)
  fix tr
  obtain r tr' where m: "m tr = (r, tr')" by (cases "m tr")
  from growsD[OF assms(1), of tr] m obtain evs where tr': "tr' = tr @ evs" by auto
  show "\<exists>evs. snd (await m f tr) = tr @ evs"
  proof (cases r)
    case (Inl e)
    with m tr' show ?thesis by (simp add: await_def)
  next
    case (Inr x)
    from growsD[OF assms(2), of x tr'] obtain evs' where "snd (f x tr') = tr' @ evs'" by auto
    with m tr' Inr show ?thesis by (simp add: await_def)
  qed
qed

lemma grows_try_catch:
  assumes "grows m" and "\<And>e. grows (h e)"
  shows "grows (try_catch m h)"
proof (rule growsI)
  fix tr
  obtain r tr' where m: "m tr = (r, tr')" by (cases "m tr")
  from growsD[OF assms(1), of tr] m obtain evs where tr': "tr' = tr @ evs" by auto
  show "\<exists>evs. snd (try_catch m h tr) = tr @ evs"
  proof (cases r)
    case (Inr x)
    with m tr' show ?thesis by (simp add: try_catch_def)
  next
    case (Inl e)
    from growsD[OF assms(2), of e tr'] obtain evs' where "snd (h e tr') = tr' @ evs'" by auto
    with m tr' Inl show ?thesis by (simp add: try_catch_def)
  qed
qed

lemma grows_for_of:
  assumes "\<And>x. grows (body x)"
  shows "grows (for_of xs body)"
proof (induction xs)
  case Nil
  show ?case by (simp add: grows_def)
next
  case (Cons x xs)
  show ?case
  proof (rule growsI)
    fix tr
    obtain r tr' where b: "body x tr = (r, tr')" by (cases "body x tr")
    from growsD[OF assms, of x tr] b obtain evs where tr': "tr' = tr @ evs" by auto
    show "\<exists>evs. snd (for_of (x # xs) body tr) = tr @ evs"
    proof (cases r)
      case (Inl e)
      with b tr' show ?thesis by simp
    next
      case (Inr u)
      from growsD[OF Cons.IH, of tr'] obtain evs' where "snd (for_of xs body tr') = tr' @ evs'" by auto
      with b tr' Inr show ?thesis by simp
    qed
  qed
qed

lemma createAlertCommunication_trace:
  "snd (createAlertCommunication w p obs s d tr) =
     tr @ [CreateResource (CommunicationR (alert_communication p obs s d (new_Date w tr)))]"
  by (simp add: createAlertCommunication_def Let_def await_def medplum_createResource_def return_def
           split: sum.splits)

lemma createPractitionerNotification_trace:
  "snd (createPractitionerNotification w pr p s d tr) =
     tr @ [CreateResource (CommunicationR (practitioner_notification pr p s d (new_Date w tr)))]"
  by (simp add: createPractitionerNotification_def Let_def await_def medplum_createResource_def return_def
           split: sum.splits)

lemma grows_createAlertCommunication: "grows (createAlertCommunication w p obs s d)"
  by (simp add: grows_def createAlertCommunication_trace)

lemma grows_createPractitionerNotification: "grows (createPractitionerNotification w pr p s d)"
  by (simp add: grows_def createPractitionerNotification_trace)

lemma grows_notifyMedicalTeam: "grows (notifyMedicalTeam w p s d)"
  unfolding notifyMedicalTeam_def
  by (intro grows_await grows_searchPractitioner grows_for_of grows_createPractitionerNotification)

lemma grows_handleHighBloodPressure_rest:
  "grows (await (createAlertCommunication medplum patient observation systolic diastolic) (\<lambda>u1.
     await (notifyMedicalTeam medplum patient systolic diastolic) (\<lambda>u2.
     console_log ''ALERTA HTA: Paciente'')))"
  by (intro grows_await grows_createAlertCommunication grows_notifyMedicalTeam grows_console_log)

lemma handleHighBloodPressure_reads:
  "\<exists>evs. snd (handleHighBloodPressure w obs s d tr) = tr @ ReadReference (obs_subject obs) # evs"
proof (cases "readReference_Patient w tr (obs_subject obs)")
  case (Inl e)
  then show ?thesis
    by (simp add: handleHighBloodPressure_def await_def medplum_readReference_Patient_def)
next
  case (Inr patient)
  from growsD[OF grows_handleHighBloodPressure_rest, of w patient obs s d "tr @ [ReadReference (obs_subject obs)]"]
  obtain evs where "snd (await (createAlertCommunication w patient obs s d) (\<lambda>u1.
     await (notifyMedicalTeam w patient s d) (\<lambda>u2.
     console_log ''ALERTA HTA: Paciente'')) (tr @ [ReadReference (obs_subject obs)]))
     = (tr @ [ReadReference (obs_subject obs)]) @ evs" by blast
  with Inr show ?thesis
    by (simp add: handleHighBloodPressure_def await_def[of "medplum_readReference_Patient w (obs_subject obs)"]
           medplum_readReference_Patient_def)
qed

lemma grows_createBloodPressureCommunication: "grows (createBloodPressureCommunication w p obs s d)"
  by (simp add: grows_def createBloodPressureCommunication_def Let_def medplum_createResource_def)

lemma grows_findPrimaryDoctor: "grows (findPrimaryDoctor w p)"
  unfolding findPrimaryDoctor_def
  by (intro grows_try_catch grows_await grows_searchCareTeam grows_console_error grows_return)
     (auto split: option.splits intro!: grows_await grows_readPractitioner grows_return)

lemma grows_logEmailSent: "grows (logEmailSent w p r m)"
proof (rule growsI)
  fix tr
  have "grows (try_catch
           (await (medplum_createResource w (AuditEventR (audit_event p r (new_Date w tr)))) (\<lambda>created.
            console_log ''Audit log creado para envio de email''))
           (\<lambda>error. console_error ''Error creando audit log:''))"
    by (intro grows_try_catch grows_await grows_createResource grows_console_log grows_console_error)
  from growsD[OF this, of tr] show "\<exists>evs. snd (logEmailSent w p r m tr) = tr @ evs"
    by (simp add: logEmailSent_def Let_def)
qed

lemma grows_sendEmailToDoctor: "grows (sendEmailToDoctor w p doc s d obs)"
  unfolding sendEmailToDoctor_def Let_def
  by (auto split: option.splits
        intro!: grows_try_catch grows_await grows_send grows_console_log grows_console_error
                grows_logEmailSent grows_throw)

lemma createDoctorNotificationCommunication_trace:
  "snd (createDoctorNotificationCommunication w p doc s d tr) =
     tr @ [CreateResource (CommunicationR (doctor_notification p doc s d (new_Date w tr)))]"
  by (simp add: createDoctorNotificationCommunication_def Let_def await_def medplum_createResource_def
        return_def split: sum.splits)

lemma grows_createDoctorNotificationCommunication:
  "grows (createDoctorNotificationCommunication w p doc s d)"
  by (simp add: grows_def createDoctorNotificationCommunication_trace)

lemma grows_sendEmailToSystemAdmin: "grows (sendEmailToSystemAdmin w p s d)"
  unfolding sendEmailToSystemAdmin_def
  by (intro grows_try_catch grows_await grows_send grows_console_log grows_console_error)

lemma grows_email_rest:
  "grows (await (console_log ''Paciente obtenido:'') (\<lambda>u2.
     await (createBloodPressureCommunication medplum patient observation systolic diastolic)
       (\<lambda>communication.
     await (console_log ''Communication creada:'') (\<lambda>u3.
     await (findPrimaryDoctor medplum patient) (\<lambda>primaryDoctor.
       case primaryDoctor of
         Some doctor \<Rightarrow>
           await (console_log ''Medico encontrado:'') (\<lambda>u4.
           await (sendEmailToDoctor medplum patient doctor systolic diastolic observation) (\<lambda>u5.
           createDoctorNotificationCommunication medplum patient doctor systolic diastolic))
       | None \<Rightarrow>
           await (console_log ''No se encontro medico de cabecera'') (\<lambda>u4.
           sendEmailToSystemAdmin medplum patient systolic diastolic))))))"
  by (intro grows_await grows_console_log grows_createBloodPressureCommunication
        grows_findPrimaryDoctor)
     (auto split: option.splits
        intro!: grows_await grows_console_log grows_sendEmailToDoctor
                grows_createDoctorNotificationCommunication grows_sendEmailToSystemAdmin)

lemma handleHighBloodPressureWithEmail_reads:
  "\<exists>evs. snd (handleHighBloodPressureWithEmail w obs s d tr) =
      tr @ ConsoleLog ''Iniciando proceso de alertas...'' # ReadReference (obs_subject obs) # evs"
proof (cases "readReference_Patient w (tr @ [ConsoleLog ''Iniciando proceso de alertas...'']) (obs_subject obs)")
  case (Inl e)
  then show ?thesis
    by (simp add: handleHighBloodPressureWithEmail_def await_def console_log_def
          medplum_readReference_Patient_def)
next
  case (Inr patient)
  let ?tr = "tr @ [ConsoleLog ''Iniciando proceso de alertas...'', ReadReference (obs_subject obs)]"
  from growsD[OF grows_email_rest, of w patient obs s d ?tr]
  obtain evs where "snd ((await (console_log ''Paciente obtenido:'') (\<lambda>u2.
     await (createBloodPressureCommunication w patient obs s d)
       (\<lambda>communication.
     await (console_log ''Communication creada:'') (\<lambda>u3.
     await (findPrimaryDoctor w patient) (\<lambda>primaryDoctor.
       case primaryDoctor of
         Some doctor \<Rightarrow>
           await (console_log ''Medico encontrado:'') (\<lambda>u4.
           await (sendEmailToDoctor w patient doctor s d obs) (\<lambda>u5.
           createDoctorNotificationCommunication w patient doctor s d))
       | None \<Rightarrow>
           await (console_log ''No se encontro medico de cabecera'') (\<lambda>u4.
           sendEmailToSystemAdmin w patient s d)))))) ?tr) = ?tr @ evs" by blast
  with Inr show ?thesis
    by (simp add: handleHighBloodPressureWithEmail_def
          await_def[of "console_log ''Iniciando proceso de alertas...''"]
          await_def[of "medplum_readReference_Patient w (obs_subject obs)"]
          console_log_def[of "''Iniciando proceso de alertas...''"]
          medplum_readReference_Patient_def)
qed

section \<open>Classifier and extraction\<close>

text \<open>
  C2. \<open>isBloodPressureObservation\<close> is true exactly when some entry of
  \<open>observation.code.coding\<close> has code \<open>85354-9\<close> and system \<open>http://loinc.org\<close>. It is a
  total boolean function: with \<open>code\<close> absent, or with \<open>code.coding\<close> absent, its value is
  false and nothing is raised.
\<close>

theorem isBloodPressureObservation_iff:
  "(isBloodPressureObservation observation \<longleftrightarrow>
      (\<exists>code codings coding.
          obs_code observation = Some code \<and> cc_coding code = Some codings \<and>
          coding \<in> set codings \<and> coding_code coding = Some ''85354-9'' \<and>
          coding_system coding = Some ''http://loinc.org''))
   \<and> isBloodPressureObservation (observation\<lparr>obs_code := None\<rparr>) = False
   \<and> isBloodPressureObservation (observation\<lparr>obs_code := Some (code\<lparr>cc_coding := None\<rparr>)\<rparr>) = False"
  by (auto simp: isBloodPressureObservation_def list_ex_iff split: option.splits)

lemma extract_component_systolic:
  "bp_systolic (extract_component acc x) =
     (if carries ''8480-6'' x then value_or_0 x else bp_systolic acc)"
  by (simp add: extract_component_def carries_def value_or_0_def Let_def split: option.splits)

lemma extract_component_diastolic:
  "bp_diastolic (extract_component acc x) =
     (if carries ''8462-4'' x then value_or_0 x else bp_diastolic acc)"
  by (auto simp add: extract_component_def carries_def value_or_0_def Let_def split: option.splits)

lemma foldl_extract_systolic:
  "bp_systolic (foldl extract_component acc cs) =
     (if filter (carries ''8480-6'') cs = [] then bp_systolic acc
      else last_value (filter (carries ''8480-6'') cs))"
proof (induction cs rule: rev_induct)
  case Nil
  show ?case by simp
next
  case (snoc x xs)
  show ?case by (simp add: snoc extract_component_systolic last_value_def)
qed

lemma foldl_extract_diastolic:
  "bp_diastolic (foldl extract_component acc cs) =
     (if filter (carries ''8462-4'') cs = [] then bp_diastolic acc
      else last_value (filter (carries ''8462-4'') cs))"
proof (induction cs rule: rev_induct)
  case Nil
  show ?case by simp
next
  case (snoc x xs)
  show ?case by (simp add: snoc extract_component_diastolic last_value_def)
qed

text \<open>
  C3, as stated, fails: with two components coded \<open>8480-6\<close>, the first of value 150
  and the second of value 0, the code returns systolic 150, where the value of the last
  component with that code is 0. The guard \<open>&& value\<close> skips a component whose value is
  falsy.
\<close>

theorem extract_last_component_counterexample:
  "bp_systolic (extractBloodPressureValues
      (bp_observation [bp_component ''8480-6'' (Fin 150), bp_component ''8480-6'' (Fin 0)])) = Fin 150
   \<and> spec_extract ''8480-6''
      (bp_observation [bp_component ''8480-6'' (Fin 150), bp_component ''8480-6'' (Fin 0)]) = Fin 0"
  by (simp add: extractBloodPressureValues_def bp_observation_def bp_component_def loinc_def
        extract_component_def component_code_def component_value_def spec_extract_def
        components_of_def last_value_def value_or_0_def)

text \<open>
  C3, amended. The systolic result is the value of the last component, in array order,
  whose first coding has code \<open>8480-6\<close> and whose \<open>valueQuantity.value\<close> is present and
  truthy (neither 0 nor NaN), and 0 when there is no such component; the diastolic
  result likewise for \<open>8462-4\<close>. An observation without \<open>component\<close>, or with an empty
  one, gives 0 and 0.
\<close>

theorem extract_last_truthy:
  "bp_systolic (extractBloodPressureValues observation) =
     last_value (filter (carries ''8480-6'') (components_of observation))
   \<and> bp_diastolic (extractBloodPressureValues observation) =
     last_value (filter (carries ''8462-4'') (components_of observation))
   \<and> extractBloodPressureValues (observation\<lparr>obs_component := None\<rparr>)
       = \<lparr>bp_systolic = Fin 0, bp_diastolic = Fin 0\<rparr>
   \<and> extractBloodPressureValues (observation\<lparr>obs_component := Some []\<rparr>)
       = \<lparr>bp_systolic = Fin 0, bp_diastolic = Fin 0\<rparr>"
  by (auto simp: extractBloodPressureValues_def components_of_def foldl_extract_systolic
        foldl_extract_diastolic last_value_def split: option.splits)

section \<open>Threshold\<close>

lemma handler_eq:
  "handler w obs tr =
     (if isBloodPressureObservation obs \<and>
         (js_gt (bp_systolic (extractBloodPressureValues obs)) (Fin 140) \<or>
          js_gt (bp_diastolic (extractBloodPressureValues obs)) (Fin 90))
      then handleHighBloodPressure w obs (bp_systolic (extractBloodPressureValues obs))
             (bp_diastolic (extractBloodPressureValues obs)) tr
      else (Inr (), tr))"
  by (simp add: handler_def return_def Let_def)

lemma handler_email_eq:
  "handler_email w obs tr =
     (if \<not> isBloodPressureObservation obs
      then (Inr (), tr @ [ConsoleLog ''Procesando observacion:'',
                          ConsoleLog ''No es observacion de presion arterial''])
      else if js_gt (bp_systolic (extractBloodPressureValues obs)) (Fin 140) \<or>
          js_gt (bp_diastolic (extractBloodPressureValues obs)) (Fin 90)
      then handleHighBloodPressureWithEmail w obs (bp_systolic (extractBloodPressureValues obs))
             (bp_diastolic (extractBloodPressureValues obs))
             (tr @ [ConsoleLog ''Procesando observacion:'',
                    ConsoleLog ''Valores: Sistolica, Diastolica'',
                    ConsoleLog ''Valores elevados detectados''])
      else (Inr (), tr @ [ConsoleLog ''Procesando observacion:'',
                    ConsoleLog ''Valores: Sistolica, Diastolica'',
                    ConsoleLog ''Valores normales'']))"
  by (simp add: handler_email_def await_def console_log_def Let_def)

text \<open>
  C1. For a blood-pressure observation whose extracted values are \<open>s\<close> and \<open>d\<close>, both
  handlers run the alert handling exactly when \<open>s > 140\<close> or \<open>d > 90\<close>: the patient read
  that opens the alert handling occurs in the run if and only if the test holds. At
  140/90 the direct-search handler returns with no call at all and the email handler
  only writes its three console lines; with \<open>s = 141\<close> (any \<open>d\<close>) or \<open>d = 91\<close> (any \<open>s\<close>)
  the run is the run of the alert handling.
\<close>

theorem handler_alert_threshold:
  assumes bp: "isBloodPressureObservation obs"
      and vals: "extractBloodPressureValues obs = \<lparr>bp_systolic = s, bp_diastolic = d\<rparr>"
  shows
    "handler w obs tr =
       (if js_gt s (Fin 140) \<or> js_gt d (Fin 90)
        then handleHighBloodPressure w obs s d tr else (Inr (), tr))
     \<and> handler_email w obs tr =
       (if js_gt s (Fin 140) \<or> js_gt d (Fin 90)
        then handleHighBloodPressureWithEmail w obs s d
               (tr @ [ConsoleLog ''Procesando observacion:'',
                      ConsoleLog ''Valores: Sistolica, Diastolica'',
                      ConsoleLog ''Valores elevados detectados''])
        else (Inr (), tr @ [ConsoleLog ''Procesando observacion:'',
                            ConsoleLog ''Valores: Sistolica, Diastolica'',
                            ConsoleLog ''Valores normales'']))
     \<and> (ReadReference (obs_subject obs) \<in> set (new_events (handler w obs) tr)
          \<longleftrightarrow> js_gt s (Fin 140) \<or> js_gt d (Fin 90))
     \<and> (ReadReference (obs_subject obs) \<in> set (new_events (handler_email w obs) tr)
          \<longleftrightarrow> js_gt s (Fin 140) \<or> js_gt d (Fin 90))
     \<and> (s = Fin 140 \<and> d = Fin 90 \<longrightarrow>
          handler w obs tr = (Inr (), tr)
          \<and> handler_email w obs tr =
              (Inr (), tr @ [ConsoleLog ''Procesando observacion:'',
                             ConsoleLog ''Valores: Sistolica, Diastolica'',
                             ConsoleLog ''Valores normales'']))
     \<and> (s = Fin 141 \<or> d = Fin 91 \<longrightarrow>
          handler w obs tr = handleHighBloodPressure w obs s d tr
          \<and> handler_email w obs tr =
              handleHighBloodPressureWithEmail w obs s d
                (tr @ [ConsoleLog ''Procesando observacion:'',
                       ConsoleLog ''Valores: Sistolica, Diastolica'',
                       ConsoleLog ''Valores elevados detectados'']))"
proof -
  let ?high = "js_gt s (Fin 140) \<or> js_gt d (Fin 90)"
  let ?tr_high = "tr @ [ConsoleLog ''Procesando observacion:'',
                       ConsoleLog ''Valores: Sistolica, Diastolica'',
                       ConsoleLog ''Valores elevados detectados'']"
  let ?tr_normal = "tr @ [ConsoleLog ''Procesando observacion:'',
                         ConsoleLog ''Valores: Sistolica, Diastolica'',
                         ConsoleLog ''Valores normales'']"
  have e1: "handler w obs tr =
       (if ?high then handleHighBloodPressure w obs s d tr else (Inr (), tr))"
    using bp vals by (simp add: handler_eq)
  have e2: "handler_email w obs tr =
       (if ?high then handleHighBloodPressureWithEmail w obs s d ?tr_high
        else (Inr (), ?tr_normal))"
    using bp vals by (simp add: handler_email_eq)
  have r1: "ReadReference (obs_subject obs) \<in> set (new_events (handler w obs) tr) \<longleftrightarrow> ?high"
  proof (cases ?high)
    case True
    obtain evs where
      "snd (handleHighBloodPressure w obs s d tr) = tr @ ReadReference (obs_subject obs) # evs"
      using handleHighBloodPressure_reads by blast
    with True e1 show ?thesis by (simp add: new_events_def)
  next
    case False
    with e1 show ?thesis by (simp add: new_events_def)
  qed
  have r2: "ReadReference (obs_subject obs) \<in> set (new_events (handler_email w obs) tr) \<longleftrightarrow> ?high"
  proof (cases ?high)
    case True
    obtain evs where
      "snd (handleHighBloodPressureWithEmail w obs s d ?tr_high) =
         ?tr_high @ ConsoleLog ''Iniciando proceso de alertas...''
                  # ReadReference (obs_subject obs) # evs"
      using handleHighBloodPressureWithEmail_reads by blast
    with True e2 show ?thesis by (simp add: new_events_def)
  next
    case False
    with e2 show ?thesis by (simp add: new_events_def)
  qed
  have b1: "s = Fin 140 \<and> d = Fin 90 \<longrightarrow>
          handler w obs tr = (Inr (), tr) \<and> handler_email w obs tr = (Inr (), ?tr_normal)"
    using e1 e2 by simp
  have b2: "s = Fin 141 \<or> d = Fin 91 \<longrightarrow>
          handler w obs tr = handleHighBloodPressure w obs s d tr
          \<and> handler_email w obs tr = handleHighBloodPressureWithEmail w obs s d ?tr_high"
  proof -
    have "s = Fin 141 \<or> d = Fin 91 \<longrightarrow> ?high"
      by (cases s; cases d) auto
    with e1 e2 show ?thesis by simp
  qed
  from e1 e2 r1 r2 b1 b2 show ?thesis by blast
qed

theorem handler_alert_threshold_witness:
  "isBloodPressureObservation
     (bp_observation [bp_component ''8480-6'' (Fin 141), bp_component ''8462-4'' (Fin 80)])
   \<and> extractBloodPressureValues
       (bp_observation [bp_component ''8480-6'' (Fin 141), bp_component ''8462-4'' (Fin 80)])
       = \<lparr>bp_systolic = Fin 141, bp_diastolic = Fin 80\<rparr>
   \<and> handler world_ok
       (bp_observation [bp_component ''8480-6'' (Fin 141), bp_component ''8462-4'' (Fin 80)]) []
     = handleHighBloodPressure world_ok
         (bp_observation [bp_component ''8480-6'' (Fin 141), bp_component ''8462-4'' (Fin 80)])
         (Fin 141) (Fin 80) []
   \<and> ReadReference (Some patient_ref_1)
       \<in> set (new_events (handler_email world_ok
           (bp_observation [bp_component ''8480-6'' (Fin 141), bp_component ''8462-4'' (Fin 80)])) [])"
proof -
  let ?obs = "bp_observation [bp_component ''8480-6'' (Fin 141), bp_component ''8462-4'' (Fin 80)]"
  have h1: "isBloodPressureObservation ?obs"
    by (simp add: extract_defs sample_defs)
  have h2: "extractBloodPressureValues ?obs = \<lparr>bp_systolic = Fin 141, bp_diastolic = Fin 80\<rparr>"
    by (simp add: extract_defs sample_defs)
  have s: "obs_subject ?obs = Some patient_ref_1"
    by (simp add: sample_defs)
  show ?thesis
    using h1 h2 s handler_alert_threshold [OF h1 h2, of world_ok "[]"] by simp
qed

section \<open>Measurement mapper\<close>

lemmas label_defs = Presion_Arterial_def Frecuencia_Cardiaca_def o_acute_def i_acute_def

text \<open>
  C4, as stated, fails for the blood-pressure label: the resource's own
  \<open>code.coding[0].code\<close> is the panel code \<open>85354-9\<close>, which is neither of the two codes
  the table lists for blood pressure.
\<close>

theorem getMeasurementObject_code_counterexample:
  "code_coding_0_code
     (getMeasurementObject sample_Number ''2023-07-16T10:00:00.000Z'' patient_ref_1 Presion_Arterial ''80'' (Some ''120''))
     = Some ''85354-9''
   \<and> ''85354-9'' \<notin> set (spec_loinc_table Presion_Arterial)"
  by (simp add: getMeasurementObject_def code_coding_0_code_def loinc_coding_def spec_loinc_table_def)

text \<open>
  C4, amended. For the blood-pressure label the resource's \<open>code.coding[0].code\<close> is
  \<open>85354-9\<close> and the first codings of its two components have the codes \<open>8462-4\<close> and
  \<open>8480-6\<close>, in this order. For the five other labels \<open>code.coding[0].code\<close> is the code
  of the table: \<open>8310-5\<close> for axillary temperature (followed by a second coding
  \<open>8331-1\<close>), \<open>8302-2\<close> for height, \<open>9279-1\<close> for respiratory rate, \<open>8867-4\<close> for heart
  rate, \<open>29463-7\<close> for weight. For any other label the result is the resource with
  \<open>resourceType\<close> \<open>Observation\<close> and no other field.
\<close>

theorem getMeasurementObject_codes:
  "code_coding_0_code (getMeasurementObject Number date subject Presion_Arterial firstValue secondValue)
     = Some ''85354-9''
   \<and> map component_code
         (components_of (getMeasurementObject Number date subject Presion_Arterial firstValue secondValue))
     = [Some ''8462-4'', Some ''8480-6'']
   \<and> code_coding_codes (getMeasurementObject Number date subject ''Temperatura Axilar'' firstValue secondValue)
     = [Some ''8310-5'', Some ''8331-1'']
   \<and> code_coding_0_code (getMeasurementObject Number date subject ''Temperatura Axilar'' firstValue secondValue)
     = Some ''8310-5''
   \<and> code_coding_0_code (getMeasurementObject Number date subject ''Altura'' firstValue secondValue)
     = Some ''8302-2''
   \<and> code_coding_0_code (getMeasurementObject Number date subject ''Frecuencia Respiratoria'' firstValue secondValue)
     = Some ''9279-1''
   \<and> code_coding_0_code (getMeasurementObject Number date subject Frecuencia_Cardiaca firstValue secondValue)
     = Some ''8867-4''
   \<and> code_coding_0_code (getMeasurementObject Number date subject ''Peso'' firstValue secondValue)
     = Some ''29463-7''
   \<and> (type \<notin> set recognized_labels \<longrightarrow>
        getMeasurementObject Number date subject type firstValue secondValue = stub_observation)"
  by (simp add: getMeasurementObject_def code_coding_0_code_def code_coding_codes_def loinc_coding_def
        components_of_def component_code_def recognized_labels_def stub_observation_def label_defs)

theorem getMeasurementObject_codes_witness:
  "''Glucosa'' \<notin> set recognized_labels
   \<and> getMeasurementObject sample_Number ''2023-07-16T10:00:00.000Z'' patient_ref_1 ''Glucosa'' ''95'' None
       = stub_observation"
  using getMeasurementObject_codes [of sample_Number "''2023-07-16T10:00:00.000Z''" patient_ref_1 "''95''" None "''Glucosa''"]
  by (simp add: recognized_labels_def label_defs)



section \<open>Fan-out to the practitioners\<close>

lemma createPractitionerNotification_eq:
  "createPractitionerNotification w p patient s d tr =
     (case createResource w tr (CommunicationR (practitioner_notification p patient s d (new_Date w tr))) of
        Inl e \<Rightarrow> Inl e | Inr r \<Rightarrow> Inr (),
      tr @ [CreateResource (CommunicationR (practitioner_notification p patient s d (new_Date w tr)))])"
  by (simp add: createPractitionerNotification_def Let_def await_def medplum_createResource_def
        return_def split: sum.splits)

lemma fanout_history_snoc:
  "fanout_history w patient s d (ps @ [p]) tr =
     fanout_history w patient s d ps tr
       @ [CreateResource (CommunicationR (practitioner_notification p patient s d
            (new_Date w (fanout_history w patient s d ps tr))))]"
  by (induction ps arbitrary: tr) simp_all

lemma fanout_outcome_0:
  "fanout_outcome w patient s d (p # ps) tr 0 =
     createResource w tr (CommunicationR (practitioner_notification p patient s d (new_Date w tr)))"
  by (simp add: fanout_outcome_def)

lemma fanout_outcome_Suc:
  "fanout_outcome w patient s d (p # ps) tr (Suc i) =
     fanout_outcome w patient s d ps
       (tr @ [CreateResource (CommunicationR (practitioner_notification p patient s d (new_Date w tr)))]) i"
  by (simp add: fanout_outcome_def)

lemma for_of_all_succeed:
  assumes "\<forall>i<length ps. succeeded (fanout_outcome w patient s d ps tr i)"
  shows "for_of ps (\<lambda>p. createPractitionerNotification w p patient s d) tr =
           (Inr (), fanout_history w patient s d ps tr)"
  using assms
proof (induction ps arbitrary: tr)
  case Nil
  show ?case by simp
next
  case (Cons p ps)
  let ?tr' = "tr @ [CreateResource (CommunicationR (practitioner_notification p patient s d (new_Date w tr)))]"
  from Cons.prems have "succeeded (fanout_outcome w patient s d (p # ps) tr 0)" by auto
  then have ok: "succeeded (createResource w tr
        (CommunicationR (practitioner_notification p patient s d (new_Date w tr))))"
    by (simp add: fanout_outcome_0)
  have "\<forall>i<length ps. succeeded (fanout_outcome w patient s d ps ?tr' i)"
  proof (intro allI impI)
    fix i assume "i < length ps"
    then have "Suc i < length (p # ps)" by simp
    with Cons.prems have "succeeded (fanout_outcome w patient s d (p # ps) tr (Suc i))" by blast
    then show "succeeded (fanout_outcome w patient s d ps ?tr' i)"
      by (simp add: fanout_outcome_Suc)
  qed
  from Cons.IH[OF this] ok show ?case
    by (simp add: createPractitionerNotification_eq succeeded_def split: sum.splits)
qed

lemma for_of_first_failure:
  assumes "k < length ps"
      and "\<forall>i<k. succeeded (fanout_outcome w patient s d ps tr i)"
      and "fanout_outcome w patient s d ps tr k = Inl e"
  shows "for_of ps (\<lambda>p. createPractitionerNotification w p patient s d) tr =
           (Inl e, fanout_history w patient s d (take (Suc k) ps) tr)"
  using assms
proof (induction ps arbitrary: tr k)
  case Nil
  then show ?case by simp
next
  case (Cons p ps)
  let ?tr' = "tr @ [CreateResource (CommunicationR (practitioner_notification p patient s d (new_Date w tr)))]"
  show ?case
  proof (cases k)
    case 0
    with Cons.prems(3) have "createResource w tr
        (CommunicationR (practitioner_notification p patient s d (new_Date w tr))) = Inl e"
      by (simp add: fanout_outcome_0)
    with 0 show ?thesis by (simp add: createPractitionerNotification_eq)
  next
    case (Suc j)
    with Cons.prems(1) have j: "j < length ps" by simp
    from Cons.prems(2) Suc have "succeeded (fanout_outcome w patient s d (p # ps) tr 0)" by simp
    then have ok: "succeeded (createResource w tr
        (CommunicationR (practitioner_notification p patient s d (new_Date w tr))))"
      by (simp add: fanout_outcome_0)
    have pre: "\<forall>i<j. succeeded (fanout_outcome w patient s d ps ?tr' i)"
    proof (intro allI impI)
      fix i assume "i < j"
      then have "Suc i < k" using Suc by simp
      with Cons.prems(2) have "succeeded (fanout_outcome w patient s d (p # ps) tr (Suc i))" by blast
      then show "succeeded (fanout_outcome w patient s d ps ?tr' i)"
        by (simp add: fanout_outcome_Suc)
    qed
    from Cons.prems(3) Suc have fail: "fanout_outcome w patient s d ps ?tr' j = Inl e"
      by (simp add: fanout_outcome_Suc)
    from Cons.IH[OF j pre fail] ok Suc show ?thesis
      by (simp add: createPractitionerNotification_eq succeeded_def split: sum.splits)
  qed
qed

lemma fanout_history_append:
  "\<exists>evs. fanout_history w patient s d ps tr = tr @ evs \<and> length evs = length ps
      \<and> list_all is_create evs
      \<and> practitioner_alert_recipients evs = map practitioner_reference ps"
proof (induction ps rule: rev_induct)
  case Nil
  show ?case by (simp add: practitioner_alert_recipients_def)
next
  case (snoc p ps)
  then obtain evs where evs: "fanout_history w patient s d ps tr = tr @ evs" "length evs = length ps"
    "list_all is_create evs"
    "practitioner_alert_recipients evs = map practitioner_reference ps" by blast
  let ?ev = "CreateResource (CommunicationR (practitioner_notification p patient s d
            (new_Date w (fanout_history w patient s d ps tr))))"
  have "practitioner_alert_recipients (evs @ [?ev]) = map practitioner_reference (ps @ [p])"
    using evs(4) by (simp add: practitioner_alert_recipients_def practitioner_notification_def)
  moreover have "fanout_history w patient s d (ps @ [p]) tr = tr @ (evs @ [?ev])"
    using evs(1) by (simp add: fanout_history_snoc)
  moreover have "list_all is_create (evs @ [?ev])" using evs(3) by (simp add: is_create_def)
  ultimately show ?case using evs(2) 
    by (intro exI[of _ "evs @ [?ev]"]) simp
qed

lemma notifyMedicalTeam_eq:
  assumes "searchResources_Practitioner w tr [(''patient'', pat_id patient)] = Inr ps"
  shows "notifyMedicalTeam w patient s d tr =
           for_of ps (\<lambda>p. createPractitionerNotification w p patient s d)
             (tr @ [SearchResources ''Practitioner'' [(''patient'', pat_id patient)]])"
  using assms
  by (simp add: notifyMedicalTeam_def await_def medplum_searchResources_Practitioner_def)

lemma fanout_history_new:
  "practitioner_alert_recipients (drop (length tr) (fanout_history w patient s d ps tr))
     = map practitioner_reference ps
   \<and> list_all is_create (drop (length tr) (fanout_history w patient s d ps tr))
   \<and> length (drop (length tr) (fanout_history w patient s d ps tr)) = length ps"
proof -
  obtain evs where "fanout_history w patient s d ps tr = tr @ evs" "length evs = length ps"
      "list_all is_create evs"
      "practitioner_alert_recipients evs = map practitioner_reference ps"
    using fanout_history_append by blast
  then show ?thesis by simp
qed

text \<open>
  C9. In the direct-search bot, with \<open>ps\<close> the practitioners the search returns:
  when every create call succeeds, the run ends normally and has created one
  communication tagged \<open>practitioner-alert\<close> per practitioner, addressed to them in
  search order; when the create call for the practitioner at position \<open>k\<close> is the first
  to raise, the run ends with that exception and the create calls made are those for
  the first \<open>k + 1\<close> practitioners, so that none is made for the remaining ones. Each
  practitioner handled adds exactly one create call to the history.
\<close>

theorem notifyMedicalTeam_fanout:
  assumes search: "searchResources_Practitioner w tr [(''patient'', pat_id patient)] = Inr ps"
      and tr1: "tr1 = tr @ [SearchResources ''Practitioner'' [(''patient'', pat_id patient)]]"
  shows
    "((\<forall>i<length ps. succeeded (fanout_outcome w patient s d ps tr1 i)) \<longrightarrow>
        notifyMedicalTeam w patient s d tr = (Inr (), fanout_history w patient s d ps tr1)
        \<and> practitioner_alert_recipients (new_events (notifyMedicalTeam w patient s d) tr)
            = map practitioner_reference ps)
     \<and> (\<forall>k e. k < length ps
               \<and> (\<forall>i<k. succeeded (fanout_outcome w patient s d ps tr1 i))
               \<and> fanout_outcome w patient s d ps tr1 k = Inl e \<longrightarrow>
        notifyMedicalTeam w patient s d tr
          = (Inl e, fanout_history w patient s d (take (Suc k) ps) tr1)
        \<and> practitioner_alert_recipients (new_events (notifyMedicalTeam w patient s d) tr)
            = map practitioner_reference (take (Suc k) ps))
     \<and> (\<forall>qs. list_all is_create (drop (length tr1) (fanout_history w patient s d qs tr1))
             \<and> length (drop (length tr1) (fanout_history w patient s d qs tr1)) = length qs)"
proof (intro conjI allI impI)
  assume ok: "\<forall>i<length ps. succeeded (fanout_outcome w patient s d ps tr1 i)"
  show r: "notifyMedicalTeam w patient s d tr = (Inr (), fanout_history w patient s d ps tr1)"
    using for_of_all_succeed[OF ok] notifyMedicalTeam_eq[OF search] tr1 by simp
  have "drop (length tr) (fanout_history w patient s d ps tr1)
          = SearchResources ''Practitioner'' [(''patient'', pat_id patient)]
            # drop (length tr1) (fanout_history w patient s d ps tr1)"
    using fanout_history_append[of w patient s d ps tr1] tr1 by auto
  then show "practitioner_alert_recipients (new_events (notifyMedicalTeam w patient s d) tr)
            = map practitioner_reference ps"
    using r fanout_history_new[of tr1 w patient s d ps]
    by (simp add: new_events_def practitioner_alert_recipients_def)
next
  fix k e
  assume a: "k < length ps
               \<and> (\<forall>i<k. succeeded (fanout_outcome w patient s d ps tr1 i))
               \<and> fanout_outcome w patient s d ps tr1 k = Inl e"
  show r: "notifyMedicalTeam w patient s d tr
          = (Inl e, fanout_history w patient s d (take (Suc k) ps) tr1)"
    using for_of_first_failure[of k ps w patient s d tr1 e] a notifyMedicalTeam_eq[OF search] tr1
    by simp
  have "drop (length tr) (fanout_history w patient s d (take (Suc k) ps) tr1)
          = SearchResources ''Practitioner'' [(''patient'', pat_id patient)]
            # drop (length tr1) (fanout_history w patient s d (take (Suc k) ps) tr1)"
    using fanout_history_append[of w patient s d "take (Suc k) ps" tr1] tr1 by auto
  then show "practitioner_alert_recipients (new_events (notifyMedicalTeam w patient s d) tr)
            = map practitioner_reference (take (Suc k) ps)"
    using r fanout_history_new[of tr1 w patient s d "take (Suc k) ps"]
    by (simp add: new_events_def practitioner_alert_recipients_def)
next
  fix qs
  show "list_all is_create (drop (length tr1) (fanout_history w patient s d qs tr1))"
    using fanout_history_new[of tr1 w patient s d qs] by simp
  show "length (drop (length tr1) (fanout_history w patient s d qs tr1)) = length qs"
    using fanout_history_new[of tr1 w patient s d qs] by simp
qed

theorem notifyMedicalTeam_fanout_witness:
  "searchResources_Practitioner world_write_fails [] [(''patient'', pat_id patient_1)]
     = Inr [doctor_1, doctor_2, doctor_3]
   \<and> succeeded (fanout_outcome world_write_fails patient_1 (Fin 150) (Fin 95)
        [doctor_1, doctor_2, doctor_3]
        [SearchResources ''Practitioner'' [(''patient'', pat_id patient_1)]] 0)
   \<and> fanout_outcome world_write_fails patient_1 (Fin 150) (Fin 95)
        [doctor_1, doctor_2, doctor_3]
        [SearchResources ''Practitioner'' [(''patient'', pat_id patient_1)]] 1
       = Inl (Error ''write failed'')
   \<and> fst (notifyMedicalTeam world_write_fails patient_1 (Fin 150) (Fin 95) [])
       = Inl (Error ''write failed'')
   \<and> practitioner_alert_recipients
        (new_events (notifyMedicalTeam world_write_fails patient_1 (Fin 150) (Fin 95)) [])
       = [practitioner_reference doctor_1, practitioner_reference doctor_2]"
proof -
  let ?ps = "[doctor_1, doctor_2, doctor_3]"
  let ?tr1 = "[SearchResources ''Practitioner'' [(''patient'', pat_id patient_1)]]"
  have h0: "searchResources_Practitioner world_write_fails [] [(''patient'', pat_id patient_1)] = Inr ?ps"
    by (simp add: world_write_fails_def world_ok_def)
  have h1: "succeeded (fanout_outcome world_write_fails patient_1 (Fin 150) (Fin 95) ?ps ?tr1 0)"
    by (simp add: fanout_outcome_def world_write_fails_def world_ok_def succeeded_def)
  have h2: "fanout_outcome world_write_fails patient_1 (Fin 150) (Fin 95) ?ps ?tr1 1
              = Inl (Error ''write failed'')"
    by (simp add: fanout_outcome_def world_write_fails_def world_ok_def)
  have h3: "\<forall>i<1. succeeded (fanout_outcome world_write_fails patient_1 (Fin 150) (Fin 95) ?ps ?tr1 i)"
    using h1 by simp
  have t1: "?tr1 = [] @ [SearchResources ''Practitioner'' [(''patient'', pat_id patient_1)]]" by simp
  from notifyMedicalTeam_fanout [OF h0 t1, of "Fin 150" "Fin 95"] h2 h3
  have "notifyMedicalTeam world_write_fails patient_1 (Fin 150) (Fin 95) []
          = (Inl (Error ''write failed''),
             fanout_history world_write_fails patient_1 (Fin 150) (Fin 95) (take (Suc 1) ?ps) ?tr1)
        \<and> practitioner_alert_recipients
            (new_events (notifyMedicalTeam world_write_fails patient_1 (Fin 150) (Fin 95)) [])
            = map practitioner_reference (take (Suc 1) ?ps)"
    by (metis (no_types, lifting) One_nat_def length_Cons lessI less_Suc_eq list.size(3))
  with h0 h1 h2 show ?thesis by simp
qed

section \<open>Resolving the primary doctor\<close>

lemma findPrimaryDoctor_eq:
  "findPrimaryDoctor w patient tr =
     (case searchResources_CareTeam w tr (careTeam_query patient) of
        Inl e \<Rightarrow>
          (Inr None, tr @ [SearchResources ''CareTeam'' (careTeam_query patient),
                           ConsoleError ''Error finding primary doctor:''])
      | Inr careTeams \<Rightarrow>
          (case careTeam_member careTeams of
             Some member \<Rightarrow>
               read_or_null w member (tr @ [SearchResources ''CareTeam'' (careTeam_query patient)])
           | None \<Rightarrow>
               (case generalPractitioner_0 patient of
                  Some gp \<Rightarrow>
                    read_or_null w gp (tr @ [SearchResources ''CareTeam'' (careTeam_query patient)])
                | None \<Rightarrow> (Inr None, tr @ [SearchResources ''CareTeam'' (careTeam_query patient)]))))"
  by (simp add: findPrimaryDoctor_def try_catch_def await_def medplum_searchResources_CareTeam_def
        medplum_readReference_Practitioner_def console_error_def return_def careTeam_query_def
        read_or_null_def split: sum.splits option.splits)

lemma fst_read_or_null: "\<exists>r. fst (read_or_null w ref tr) = Inr r"
  by (simp add: read_or_null_def split: sum.splits)

text \<open>
  C6. \<open>findPrimaryDoctor\<close> never ends with an exception, for every world, patient and
  history. When the CareTeam search raises, when the read of the care team's
  practitioner member raises, or when the read of the general practitioner raises, it
  returns \<open>null\<close> after writing one error line to the console.
\<close>

theorem findPrimaryDoctor_fail_open:
  "(\<exists>r. fst (findPrimaryDoctor w patient tr) = Inr r)
   \<and> (\<forall>e. searchResources_CareTeam w tr (careTeam_query patient) = Inl e \<longrightarrow>
        findPrimaryDoctor w patient tr =
          (Inr None, tr @ [SearchResources ''CareTeam'' (careTeam_query patient),
                           ConsoleError ''Error finding primary doctor:'']))
   \<and> (\<forall>careTeams member e.
        searchResources_CareTeam w tr (careTeam_query patient) = Inr careTeams
        \<and> careTeam_member careTeams = Some member
        \<and> readReference_Practitioner w (tr @ [SearchResources ''CareTeam'' (careTeam_query patient)])
            (Some member) = Inl e \<longrightarrow>
        findPrimaryDoctor w patient tr =
          (Inr None, tr @ [SearchResources ''CareTeam'' (careTeam_query patient),
                           ReadReference (Some member),
                           ConsoleError ''Error finding primary doctor:'']))
   \<and> (\<forall>careTeams gp e.
        searchResources_CareTeam w tr (careTeam_query patient) = Inr careTeams
        \<and> careTeam_member careTeams = None
        \<and> generalPractitioner_0 patient = Some gp
        \<and> readReference_Practitioner w (tr @ [SearchResources ''CareTeam'' (careTeam_query patient)])
            (Some gp) = Inl e \<longrightarrow>
        findPrimaryDoctor w patient tr =
          (Inr None, tr @ [SearchResources ''CareTeam'' (careTeam_query patient),
                           ReadReference (Some gp),
                           ConsoleError ''Error finding primary doctor:'']))"
proof (intro conjI allI impI)
  show "\<exists>r. fst (findPrimaryDoctor w patient tr) = Inr r"
    using fst_read_or_null by (simp add: findPrimaryDoctor_eq split: sum.splits option.splits)
next
  fix e assume "searchResources_CareTeam w tr (careTeam_query patient) = Inl e"
  then show "findPrimaryDoctor w patient tr =
          (Inr None, tr @ [SearchResources ''CareTeam'' (careTeam_query patient),
                           ConsoleError ''Error finding primary doctor:''])"
    by (simp add: findPrimaryDoctor_eq)
next
  fix careTeams member e
  assume "searchResources_CareTeam w tr (careTeam_query patient) = Inr careTeams
        \<and> careTeam_member careTeams = Some member
        \<and> readReference_Practitioner w (tr @ [SearchResources ''CareTeam'' (careTeam_query patient)])
            (Some member) = Inl e"
  then show "findPrimaryDoctor w patient tr =
          (Inr None, tr @ [SearchResources ''CareTeam'' (careTeam_query patient),
                           ReadReference (Some member),
                           ConsoleError ''Error finding primary doctor:''])"
    by (simp add: findPrimaryDoctor_eq read_or_null_def)
next
  fix careTeams gp e
  assume "searchResources_CareTeam w tr (careTeam_query patient) = Inr careTeams
        \<and> careTeam_member careTeams = None
        \<and> generalPractitioner_0 patient = Some gp
        \<and> readReference_Practitioner w (tr @ [SearchResources ''CareTeam'' (careTeam_query patient)])
            (Some gp) = Inl e"
  then show "findPrimaryDoctor w patient tr =
          (Inr None, tr @ [SearchResources ''CareTeam'' (careTeam_query patient),
                           ReadReference (Some gp),
                           ConsoleError ''Error finding primary doctor:''])"
    by (simp add: findPrimaryDoctor_eq read_or_null_def)
qed

lemma find_first:
  "\<forall>q\<in>set before. \<not> P q \<Longrightarrow> P p \<Longrightarrow> find P (before @ p # after) = Some p"
  by (induction before) auto

lemma find_none: "\<forall>q\<in>set xs. \<not> P q \<Longrightarrow> find P xs = None"
  by (induction xs) auto

lemma careTeam_member_first:
  assumes "ct_participant careTeam = Some (before @ p # after)"
      and "\<forall>q\<in>set before. \<not> is_practitioner_member q"
      and "is_practitioner_member p"
      and "ctp_member p = Some m"
  shows "careTeam_member (careTeam # rest) = Some m"
proof -
  have "practitionerParticipant careTeam = Some p"
    using assms(1) find_first[OF assms(2) assms(3)] by (simp add: practitionerParticipant_def)
  moreover have "truthy_string (ref_reference m)"
    using assms(3,4)
    by (auto simp: is_practitioner_member_def truthy_string_def startsWith_def split: option.splits)
  ultimately show ?thesis using assms(4) by (simp add: careTeam_member_def)
qed

lemma careTeam_member_none:
  assumes "careTeams = [] \<or> (\<exists>careTeam rest. careTeams = careTeam # rest
              \<and> (\<forall>q\<in>set (participants_of careTeam). \<not> is_practitioner_member q))"
  shows "careTeam_member careTeams = None"
  using assms
proof
  assume "careTeams = []"
  then show ?thesis by (simp add: careTeam_member_def)
next
  assume "\<exists>careTeam rest. careTeams = careTeam # rest
              \<and> (\<forall>q\<in>set (participants_of careTeam). \<not> is_practitioner_member q)"
  then obtain careTeam rest where c: "careTeams = careTeam # rest"
      and n: "\<forall>q\<in>set (participants_of careTeam). \<not> is_practitioner_member q" by blast
  have "practitionerParticipant careTeam = None"
    using find_none[OF n] by (simp add: practitionerParticipant_def participants_of_def split: option.splits)
  with c show ?thesis by (simp add: careTeam_member_def)
qed

text \<open>
  C7. When the CareTeam search answers: if the first care team has a participant whose
  member reference starts with \<open>Practitioner/\<close>, the first such participant's member is
  read and the practitioner read is the result. If the search returns no care team, or
  the first care team has no such participant, the patient's \<open>generalPractitioner[0]\<close>
  is read when its \<open>reference\<close> is present (a non-empty string) and the practitioner read
  is the result; when there is no such reference either, the result is \<open>null\<close>, without
  any further call. A read that raises gives \<open>null\<close> as well (\<open>read_or_null\<close>).
\<close>

theorem findPrimaryDoctor_resolution:
  assumes search: "searchResources_CareTeam w tr (careTeam_query patient) = Inr careTeams"
      and tr1: "tr1 = tr @ [SearchResources ''CareTeam'' (careTeam_query patient)]"
  shows
    "(\<forall>careTeam rest before p after m.
        careTeams = careTeam # rest
        \<and> ct_participant careTeam = Some (before @ p # after)
        \<and> (\<forall>q\<in>set before. \<not> is_practitioner_member q)
        \<and> is_practitioner_member p \<and> ctp_member p = Some m \<longrightarrow>
        findPrimaryDoctor w patient tr = read_or_null w m tr1)
     \<and> (careTeams = [] \<or> (\<exists>careTeam rest. careTeams = careTeam # rest
              \<and> (\<forall>q\<in>set (participants_of careTeam). \<not> is_practitioner_member q)) \<longrightarrow>
        (\<forall>gp gps. pat_generalPractitioner patient = Some (gp # gps)
                   \<and> truthy_string (ref_reference gp) \<longrightarrow>
           findPrimaryDoctor w patient tr = read_or_null w gp tr1)
        \<and> (pat_generalPractitioner patient = None \<or> pat_generalPractitioner patient = Some []
            \<or> (\<exists>gp gps. pat_generalPractitioner patient = Some (gp # gps)
                         \<and> \<not> truthy_string (ref_reference gp)) \<longrightarrow>
           findPrimaryDoctor w patient tr = (Inr None, tr1)))"
proof (intro conjI allI impI)
  fix careTeam rest before p after m
  assume a: "careTeams = careTeam # rest
        \<and> ct_participant careTeam = Some (before @ p # after)
        \<and> (\<forall>q\<in>set before. \<not> is_practitioner_member q)
        \<and> is_practitioner_member p \<and> ctp_member p = Some m"
  then have "careTeam_member careTeams = Some m"
    using careTeam_member_first[of careTeam before p after m rest] by simp
  with search tr1 show "findPrimaryDoctor w patient tr = read_or_null w m tr1"
    by (simp add: findPrimaryDoctor_eq)
next
  fix gp gps
  assume n: "careTeams = [] \<or> (\<exists>careTeam rest. careTeams = careTeam # rest
              \<and> (\<forall>q\<in>set (participants_of careTeam). \<not> is_practitioner_member q))"
     and g: "pat_generalPractitioner patient = Some (gp # gps) \<and> truthy_string (ref_reference gp)"
  from g have "generalPractitioner_0 patient = Some gp" by (simp add: generalPractitioner_0_def)
  with careTeam_member_none[OF n] search tr1
  show "findPrimaryDoctor w patient tr = read_or_null w gp tr1"
    by (simp add: findPrimaryDoctor_eq)
next
  assume n: "careTeams = [] \<or> (\<exists>careTeam rest. careTeams = careTeam # rest
              \<and> (\<forall>q\<in>set (participants_of careTeam). \<not> is_practitioner_member q))"
     and g: "pat_generalPractitioner patient = None \<or> pat_generalPractitioner patient = Some []
            \<or> (\<exists>gp gps. pat_generalPractitioner patient = Some (gp # gps)
                         \<and> \<not> truthy_string (ref_reference gp))"
  from g have "generalPractitioner_0 patient = None"
    by (auto simp: generalPractitioner_0_def)
  with careTeam_member_none[OF n] search tr1
  show "findPrimaryDoctor w patient tr = (Inr None, tr1)"
    by (simp add: findPrimaryDoctor_eq)
qed

theorem findPrimaryDoctor_fail_open_witness:
  "searchResources_CareTeam world_search_fails [] (careTeam_query patient_1)
     = Inl (Error ''store unavailable'')
   \<and> findPrimaryDoctor world_search_fails patient_1 [] =
       (Inr None, [SearchResources ''CareTeam'' (careTeam_query patient_1),
                   ConsoleError ''Error finding primary doctor:''])
   \<and> searchResources_CareTeam world_read_fails [] (careTeam_query patient_1) = Inr [careTeam_1]
   \<and> careTeam_member [careTeam_1]
       = Some \<lparr>ref_reference = Some ''Practitioner/d1'', ref_display = None\<rparr>
   \<and> readReference_Practitioner world_read_fails
        [SearchResources ''CareTeam'' (careTeam_query patient_1)]
        (Some \<lparr>ref_reference = Some ''Practitioner/d1'', ref_display = None\<rparr>)
       = Inl (Error ''not found'')
   \<and> findPrimaryDoctor world_read_fails patient_1 [] =
       (Inr None, [SearchResources ''CareTeam'' (careTeam_query patient_1),
                   ReadReference (Some \<lparr>ref_reference = Some ''Practitioner/d1'', ref_display = None\<rparr>),
                   ConsoleError ''Error finding primary doctor:''])"
proof -
  let ?m = "\<lparr>ref_reference = Some ''Practitioner/d1'', ref_display = None\<rparr>"
  have a: "searchResources_CareTeam world_search_fails [] (careTeam_query patient_1)
             = Inl (Error ''store unavailable'')"
    by (simp add: world_search_fails_def world_ok_def)
  have b: "searchResources_CareTeam world_read_fails [] (careTeam_query patient_1) = Inr [careTeam_1]"
    by (simp add: world_read_fails_def world_ok_def)
  have c: "careTeam_member [careTeam_1] = Some ?m"
    by (simp add: lookup_defs careTeam_1_def)
  have d: "readReference_Practitioner world_read_fails
             ([] @ [SearchResources ''CareTeam'' (careTeam_query patient_1)]) (Some ?m)
             = Inl (Error ''not found'')"
    by (simp add: world_read_fails_def world_ok_def)
  from findPrimaryDoctor_fail_open [of world_search_fails patient_1 "[]"] a
  have r1: "findPrimaryDoctor world_search_fails patient_1 [] =
       (Inr None, [] @ [SearchResources ''CareTeam'' (careTeam_query patient_1),
                   ConsoleError ''Error finding primary doctor:''])"
    by blast
  from findPrimaryDoctor_fail_open [of world_read_fails patient_1 "[]"] b c d
  have r2: "findPrimaryDoctor world_read_fails patient_1 [] =
       (Inr None, [] @ [SearchResources ''CareTeam'' (careTeam_query patient_1),
                   ReadReference (Some ?m),
                   ConsoleError ''Error finding primary doctor:''])"
    by blast
  from a b c d r1 r2 show ?thesis by simp
qed

theorem findPrimaryDoctor_resolution_witness:
  "searchResources_CareTeam world_ok [] (careTeam_query patient_1) = Inr [careTeam_1]
   \<and> ct_participant careTeam_1 =
       Some ([\<lparr>ctp_member = Some \<lparr>ref_reference = Some ''RelatedPerson/r1'', ref_display = None\<rparr>\<rparr>]
             @ \<lparr>ctp_member = Some \<lparr>ref_reference = Some ''Practitioner/d1'', ref_display = None\<rparr>\<rparr> # [])
   \<and> \<not> is_practitioner_member
          \<lparr>ctp_member = Some \<lparr>ref_reference = Some ''RelatedPerson/r1'', ref_display = None\<rparr>\<rparr>
   \<and> is_practitioner_member
          \<lparr>ctp_member = Some \<lparr>ref_reference = Some ''Practitioner/d1'', ref_display = None\<rparr>\<rparr>
   \<and> findPrimaryDoctor world_ok patient_1 [] =
       (Inr (Some doctor_1),
        [SearchResources ''CareTeam'' (careTeam_query patient_1),
         ReadReference (Some \<lparr>ref_reference = Some ''Practitioner/d1'', ref_display = None\<rparr>)])
   \<and> searchResources_CareTeam world_no_doctor [] (careTeam_query patient_1) = Inr []
   \<and> pat_generalPractitioner patient_1 = None
   \<and> findPrimaryDoctor world_no_doctor patient_1 [] =
       (Inr None, [SearchResources ''CareTeam'' (careTeam_query patient_1)])"
proof -
  let ?rel = "\<lparr>ctp_member = Some \<lparr>ref_reference = Some ''RelatedPerson/r1'', ref_display = None\<rparr>\<rparr>"
  let ?m = "\<lparr>ref_reference = Some ''Practitioner/d1'', ref_display = None\<rparr>"
  let ?p = "\<lparr>ctp_member = Some ?m\<rparr>"
  let ?tr1 = "[] @ [SearchResources ''CareTeam'' (careTeam_query patient_1)]"
  have a: "searchResources_CareTeam world_ok [] (careTeam_query patient_1) = Inr [careTeam_1]"
    by (simp add: world_ok_def)
  have b: "ct_participant careTeam_1 = Some ([?rel] @ ?p # [])"
    by (simp add: careTeam_1_def)
  have c: "\<not> is_practitioner_member ?rel" "is_practitioner_member ?p"
    by (simp_all add: is_practitioner_member_def startsWith_def)
  have d: "searchResources_CareTeam world_no_doctor [] (careTeam_query patient_1) = Inr []"
    by (simp add: world_no_doctor_def world_ok_def)
  have e: "pat_generalPractitioner patient_1 = None"
    by (simp add: patient_1_def)
  from findPrimaryDoctor_resolution [OF a refl, THEN conjunct1, rule_format,
       of careTeam_1 "[]" "[?rel]" ?p "[]" ?m] b c
  have r1: "findPrimaryDoctor world_ok patient_1 [] = read_or_null world_ok ?m ?tr1"
    by simp
  from findPrimaryDoctor_resolution [OF d refl, THEN conjunct2] e
  have r2: "findPrimaryDoctor world_no_doctor patient_1 [] = (Inr None, ?tr1)"
    by simp
  from a b c d e r1 r2 show ?thesis
    by (simp add: read_or_null_def world_ok_def)
qed

section \<open>The email bot after the doctor lookup\<close>

lemma await_console_log: "await (console_log msg) f tr = f () (tr @ [ConsoleLog msg])"
  by (simp add: await_def console_log_def)

lemma await_Inr: "m tr = (Inr x, tr') \<Longrightarrow> await m f tr = f x tr'"
  by (simp add: await_def)

lemma await_Inl: "m tr = (Inl e, tr') \<Longrightarrow> await m f tr = (Inl e, tr')"
  by (simp add: await_def)

lemma handler_email_after_lookup:
  assumes "doctor_lookup w obs s d tr patient doctor t"
  shows "handler_email w obs tr =
     (case doctor of
        Some doc \<Rightarrow>
          await (console_log ''Medico encontrado:'') (\<lambda>u4.
          await (sendEmailToDoctor w patient doc s d obs) (\<lambda>u5.
          createDoctorNotificationCommunication w patient doc s d)) t
      | None \<Rightarrow>
          await (console_log ''No se encontro medico de cabecera'') (\<lambda>u4.
          sendEmailToSystemAdmin w patient s d) t)"
proof -
  from assms have bp: "isBloodPressureObservation obs"
    and vals: "extractBloodPressureValues obs = \<lparr>bp_systolic = s, bp_diastolic = d\<rparr>"
    and high: "js_gt s (Fin 140) \<or> js_gt d (Fin 90)"
    and rd: "readReference_Patient w (email_history_1 tr) (obs_subject obs) = Inr patient"
    and cr: "succeeded (createResource w (email_history_2 obs tr)
           (CommunicationR (patient_alert_communication patient obs s d
              (new_Date w (email_history_2 obs tr)))))"
    and fd: "findPrimaryDoctor w patient (email_history_3 w patient obs s d tr) = (Inr doctor, t)"
    by (simp_all add: doctor_lookup_def)
  have h: "handler_email w obs tr =
      handleHighBloodPressureWithEmail w obs s d
        (tr @ [ConsoleLog ''Procesando observacion:'',
               ConsoleLog ''Valores: Sistolica, Diastolica'',
               ConsoleLog ''Valores elevados detectados''])"
    using bp vals high by (simp add: handler_email_eq)
  have r: "medplum_readReference_Patient w (obs_subject obs) (email_history_1 tr)
             = (Inr patient, email_history_1 tr @ [ReadReference (obs_subject obs)])"
    using rd by (simp add: medplum_readReference_Patient_def)
  from cr obtain c where c: "createResource w (email_history_2 obs tr)
           (CommunicationR (patient_alert_communication patient obs s d
              (new_Date w (email_history_2 obs tr)))) = Inr c"
    by (auto simp: succeeded_def split: sum.splits)
  have cc: "createBloodPressureCommunication w patient obs s d (email_history_2 obs tr)
      = (Inr c, email_history_2 obs tr @ [CreateResource (CommunicationR
            (patient_alert_communication patient obs s d (new_Date w (email_history_2 obs tr))))])"
    using c by (simp add: createBloodPressureCommunication_def Let_def medplum_createResource_def)
  have fd': "findPrimaryDoctor w patient
       ((email_history_2 obs tr @ [CreateResource (CommunicationR
            (patient_alert_communication patient obs s d (new_Date w (email_history_2 obs tr))))])
        @ [ConsoleLog ''Communication creada:'']) = (Inr doctor, t)"
    using fd by (simp add: email_history_3_def)
  have e1: "(tr @ [ConsoleLog ''Procesando observacion:'',
               ConsoleLog ''Valores: Sistolica, Diastolica'',
               ConsoleLog ''Valores elevados detectados'']) @ [ConsoleLog ''Iniciando proceso de alertas...'']
            = email_history_1 tr"
    by (simp add: email_history_1_def)
  have e2: "(email_history_1 tr @ [ReadReference (obs_subject obs)]) @ [ConsoleLog ''Paciente obtenido:'']
            = email_history_2 obs tr"
    by (simp add: email_history_2_def)
  show ?thesis
    unfolding h handleHighBloodPressureWithEmail_def
    apply (subst await_console_log)
    apply (subst e1)
    apply (subst await_Inr[where m="medplum_readReference_Patient w (obs_subject obs)" and tr="email_history_1 tr", OF r])
    apply (subst await_console_log)
    apply (subst e2)
    apply (subst await_Inr[where m="createBloodPressureCommunication w patient obs s d" and tr="email_history_2 obs tr", OF cc])
    apply (subst await_console_log)
    apply (subst await_Inr[where m="findPrimaryDoctor w patient" and tr="(email_history_2 obs tr @ [CreateResource (CommunicationR
            (patient_alert_communication patient obs s d (new_Date w (email_history_2 obs tr))))])
        @ [ConsoleLog ''Communication creada:'']", OF fd'])
    apply (cases doctor)
     apply simp_all
    done
qed

lemma sendEmailToDoctor_no_email:
  "getDoctorEmail doctor = None \<Longrightarrow>
     sendEmailToDoctor w patient doctor s d obs t =
       (Inr (), t @ [ConsoleLog ''No se encontro email del medico''])"
  by (simp add: sendEmailToDoctor_def console_log_def)

lemma sendEmailToDoctor_send_fails:
  "getDoctorEmail doctor = Some addr \<Longrightarrow>
   sesClient_send w t (doctor_email_command w patient doctor s d obs addr) = Inl e \<Longrightarrow>
     sendEmailToDoctor w patient doctor s d obs t =
       (Inl e, t @ [SesSend (doctor_email_command w patient doctor s d obs addr),
                    ConsoleError ''Error enviando email:''])"
  by (simp add: sendEmailToDoctor_def Let_def try_catch_def await_def sesClient_send_io_def
        console_error_def throw_def)

lemma sendEmailToSystemAdmin_eq:
  "sendEmailToSystemAdmin w patient s d t =
     (Inr (), t @ [SesSend (admin_email_command w patient s d),
                   (case sesClient_send w t (admin_email_command w patient s d) of
                      Inl e \<Rightarrow> ConsoleError ''Error enviando email a admin:''
                    | Inr r \<Rightarrow> ConsoleLog ''Email enviado a administracion'')])"
  by (simp add: sendEmailToSystemAdmin_def try_catch_def await_def sesClient_send_io_def
        console_error_def console_log_def split: sum.splits)

lemma createDoctorNotificationCommunication_eq:
  "createDoctorNotificationCommunication w patient doctor s d t =
     (case createResource w t (CommunicationR (doctor_notification patient doctor s d (new_Date w t))) of
        Inl e \<Rightarrow> Inl e | Inr r \<Rightarrow> Inr (),
      t @ [CreateResource (CommunicationR (doctor_notification patient doctor s d (new_Date w t)))])"
  by (simp add: createDoctorNotificationCommunication_def Let_def await_def medplum_createResource_def
        return_def split: sum.splits)

text \<open>
  C5. In a run of the email handler that has resolved a practitioner with a work email
  address, a mail send that raises \<open>e\<close> makes the handler end with \<open>e\<close>, after an
  error line on the console. In a run that has resolved no practitioner, the handler
  ends normally whether the send of the fallback mail to the administrator succeeds or
  not; a failure only leaves an error line on the console. \<open>sendEmailToSystemAdmin\<close>
  itself never ends with an exception.
\<close>

theorem email_failure_policy:
  "(\<forall>doctor addr e.
      doctor_lookup w obs s d tr patient (Some doctor) t
      \<and> getDoctorEmail doctor = Some addr
      \<and> sesClient_send w (t @ [ConsoleLog ''Medico encontrado:''])
          (doctor_email_command w patient doctor s d obs addr) = Inl e \<longrightarrow>
      handler_email w obs tr =
        (Inl e, t @ [ConsoleLog ''Medico encontrado:'',
                     SesSend (doctor_email_command w patient doctor s d obs addr),
                     ConsoleError ''Error enviando email:'']))
   \<and> (doctor_lookup w obs s d tr patient None t \<longrightarrow>
      handler_email w obs tr =
        (Inr (), t @ [ConsoleLog ''No se encontro medico de cabecera'',
                      SesSend (admin_email_command w patient s d),
                      (case sesClient_send w (t @ [ConsoleLog ''No se encontro medico de cabecera''])
                              (admin_email_command w patient s d) of
                         Inl e \<Rightarrow> ConsoleError ''Error enviando email a admin:''
                       | Inr r \<Rightarrow> ConsoleLog ''Email enviado a administracion'')]))
   \<and> fst (sendEmailToSystemAdmin w patient s d t) = Inr ()"
proof (intro conjI allI impI)
  fix doctor addr e
  assume a: "doctor_lookup w obs s d tr patient (Some doctor) t
      \<and> getDoctorEmail doctor = Some addr
      \<and> sesClient_send w (t @ [ConsoleLog ''Medico encontrado:''])
          (doctor_email_command w patient doctor s d obs addr) = Inl e"
  then have "sendEmailToDoctor w patient doctor s d obs (t @ [ConsoleLog ''Medico encontrado:'']) =
       (Inl e, (t @ [ConsoleLog ''Medico encontrado:'']) @
           [SesSend (doctor_email_command w patient doctor s d obs addr),
            ConsoleError ''Error enviando email:''])"
    using sendEmailToDoctor_send_fails by blast
  with a show "handler_email w obs tr =
        (Inl e, t @ [ConsoleLog ''Medico encontrado:'',
                     SesSend (doctor_email_command w patient doctor s d obs addr),
                     ConsoleError ''Error enviando email:''])"
    using handler_email_after_lookup[of w obs s d tr patient "Some doctor" t]
    by (simp add: await_console_log await_Inl)
next
  assume "doctor_lookup w obs s d tr patient None t"
  then show "handler_email w obs tr =
        (Inr (), t @ [ConsoleLog ''No se encontro medico de cabecera'',
                      SesSend (admin_email_command w patient s d),
                      (case sesClient_send w (t @ [ConsoleLog ''No se encontro medico de cabecera''])
                              (admin_email_command w patient s d) of
                         Inl e \<Rightarrow> ConsoleError ''Error enviando email a admin:''
                       | Inr r \<Rightarrow> ConsoleLog ''Email enviado a administracion'')])"
    using handler_email_after_lookup[of w obs s d tr patient None t]
    by (simp add: await_console_log sendEmailToSystemAdmin_eq)
next
  show "fst (sendEmailToSystemAdmin w patient s d t) = Inr ()"
    by (simp add: sendEmailToSystemAdmin_eq)
qed

lemma lookup_mail_fails:
  "doctor_lookup world_mail_fails obs_150_95 (Fin 150) (Fin 95) [] patient_1 (Some doctor_1)
     (email_history_3 world_mail_fails patient_1 obs_150_95 (Fin 150) (Fin 95) []
        @ [SearchResources ''CareTeam'' (careTeam_query patient_1),
           ReadReference (Some \<lparr>ref_reference = Some ''Practitioner/d1'', ref_display = None\<rparr>)])"
proof -
  have c: "careTeam_member [careTeam_1] = Some \<lparr>ref_reference = Some ''Practitioner/d1'', ref_display = None\<rparr>"
    by (simp add: lookup_defs careTeam_1_def)
  show ?thesis
    unfolding doctor_lookup_def
    by (simp add: obs_150_95_facts findPrimaryDoctor_eq c read_or_null_def succeeded_def world_defs)
qed

lemma lookup_no_doctor:
  "doctor_lookup world_no_doctor obs_150_95 (Fin 150) (Fin 95) [] patient_1 None
     (email_history_3 world_no_doctor patient_1 obs_150_95 (Fin 150) (Fin 95) []
        @ [SearchResources ''CareTeam'' (careTeam_query patient_1)])"
proof -
  have c: "careTeam_member [] = None"
    by (simp add: lookup_defs)
  have g: "generalPractitioner_0 patient_1 = None"
    by (simp add: generalPractitioner_0_def patient_1_def)
  show ?thesis
    unfolding doctor_lookup_def
    by (simp add: obs_150_95_facts findPrimaryDoctor_eq c g succeeded_def world_defs)
qed

theorem email_failure_policy_witness:
  "doctor_lookup world_mail_fails obs_150_95 (Fin 150) (Fin 95) [] patient_1 (Some doctor_1)
     (email_history_3 world_mail_fails patient_1 obs_150_95 (Fin 150) (Fin 95) []
        @ [SearchResources ''CareTeam'' (careTeam_query patient_1),
           ReadReference (Some \<lparr>ref_reference = Some ''Practitioner/d1'', ref_display = None\<rparr>)])
   \<and> getDoctorEmail doctor_1 = Some ''luis@example.org''
   \<and> fst (handler_email world_mail_fails obs_150_95 []) = Inl (Error ''SES rejected'')
   \<and> doctor_lookup world_no_doctor obs_150_95 (Fin 150) (Fin 95) [] patient_1 None
     (email_history_3 world_no_doctor patient_1 obs_150_95 (Fin 150) (Fin 95) []
        @ [SearchResources ''CareTeam'' (careTeam_query patient_1)])
   \<and> handler_email world_no_doctor obs_150_95 [] =
       (Inr (), email_history_3 world_no_doctor patient_1 obs_150_95 (Fin 150) (Fin 95) []
                @ [SearchResources ''CareTeam'' (careTeam_query patient_1),
                   ConsoleLog ''No se encontro medico de cabecera'',
                   SesSend (admin_email_command world_no_doctor patient_1 (Fin 150) (Fin 95)),
                   ConsoleError ''Error enviando email a admin:''])"
proof -
  let ?t1 = "email_history_3 world_mail_fails patient_1 obs_150_95 (Fin 150) (Fin 95) []
        @ [SearchResources ''CareTeam'' (careTeam_query patient_1),
           ReadReference (Some \<lparr>ref_reference = Some ''Practitioner/d1'', ref_display = None\<rparr>)]"
  let ?t2 = "email_history_3 world_no_doctor patient_1 obs_150_95 (Fin 150) (Fin 95) []
        @ [SearchResources ''CareTeam'' (careTeam_query patient_1)]"
  have m: "getDoctorEmail doctor_1 = Some ''luis@example.org''"
    by (simp add: getDoctorEmail_def doctor_1_def truthy_string_def)
  have f: "sesClient_send world_mail_fails (?t1 @ [ConsoleLog ''Medico encontrado:''])
          (doctor_email_command world_mail_fails patient_1 doctor_1 (Fin 150) (Fin 95) obs_150_95
             ''luis@example.org'') = Inl (Error ''SES rejected'')"
    by (simp add: world_defs)
  have f2: "sesClient_send world_no_doctor (?t2 @ [ConsoleLog ''No se encontro medico de cabecera''])
          (admin_email_command world_no_doctor patient_1 (Fin 150) (Fin 95)) = Inl (Error ''SES rejected'')"
    by (simp add: world_defs)
  from email_failure_policy [of world_mail_fails obs_150_95 "Fin 150" "Fin 95" "[]" patient_1 ?t1]
       lookup_mail_fails m f
  have r1: "fst (handler_email world_mail_fails obs_150_95 []) = Inl (Error ''SES rejected'')"
    by (metis fst_conv)
  from email_failure_policy [of world_no_doctor obs_150_95 "Fin 150" "Fin 95" "[]" patient_1 ?t2]
       lookup_no_doctor f2
  have r2: "handler_email world_no_doctor obs_150_95 [] =
       (Inr (), ?t2 @ [ConsoleLog ''No se encontro medico de cabecera'',
                   SesSend (admin_email_command world_no_doctor patient_1 (Fin 150) (Fin 95)),
                   ConsoleError ''Error enviando email a admin:''])"
    by simp
  from lookup_mail_fails m r1 lookup_no_doctor r2 show ?thesis by simp
qed

lemma getDoctorEmail_none:
  assumes "\<forall>c\<in>set (telecom_of doctor). \<not> (cp_system c = Some ''email'' \<and> cp_use c = Some ''work'')"
  shows "getDoctorEmail doctor = None"
proof (cases "prac_telecom doctor")
  case None
  then show ?thesis by (simp add: getDoctorEmail_def)
next
  case (Some telecom)
  with assms have "\<forall>c\<in>set telecom. \<not> (cp_system c = Some ''email'' \<and> cp_use c = Some ''work'')"
    by (simp add: telecom_of_def)
  then have "find (\<lambda>contact. cp_system contact = Some ''email'' \<and> cp_use contact = Some ''work'') telecom = None"
    by (rule find_none)
  with Some show ?thesis by (simp add: getDoctorEmail_def)
qed

lemma findPrimaryDoctor_events:
  assumes "findPrimaryDoctor w patient t3 = (r, t)"
  shows "\<exists>evs. t = t3 @ evs \<and> (\<forall>ev\<in>set evs. \<not> is_send ev \<and> \<not> is_audit_create ev)"
  using assms
  by (auto simp: findPrimaryDoctor_eq read_or_null_def is_send_def is_audit_create_def
           split: sum.splits option.splits)

text \<open>
  C10. For a practitioner none of whose \<open>telecom\<close> entries has system \<open>email\<close> and use
  \<open>work\<close>, \<open>sendEmailToDoctor\<close> returns normally after one console line, with no mail
  sent and no resource created. A run of the email handler that resolves such a
  practitioner then ends with the create call for the communication tagged
  \<open>doctor-email-notification\<close>, whose payload begins \<open>Email enviado al Dr./Dra.\<close>, and
  the whole run contains no mail send (so no fallback mail to the administrator
  either) and no AuditEvent.
\<close>

theorem doctor_without_work_email:
  assumes nomail:
    "\<forall>c\<in>set (telecom_of doctor). \<not> (cp_system c = Some ''email'' \<and> cp_use c = Some ''work'')"
      and t5: "t5 = t @ [ConsoleLog ''Medico encontrado:'', ConsoleLog ''No se encontro email del medico'']"
      and n: "notification = doctor_notification patient doctor s d (new_Date w t5)"
  shows
    "sendEmailToDoctor w patient doctor s d obs t0 =
       (Inr (), t0 @ [ConsoleLog ''No se encontro email del medico''])
     \<and> (doctor_lookup w obs s d tr patient (Some doctor) t \<longrightarrow>
          handler_email w obs tr =
            (case createResource w t5 (CommunicationR notification) of
               Inl e \<Rightarrow> Inl e | Inr r \<Rightarrow> Inr (),
             t5 @ [CreateResource (CommunicationR notification)])
          \<and> (\<forall>ev\<in>set (new_events (handler_email w obs) tr). \<not> is_send ev \<and> \<not> is_audit_create ev))
     \<and> com_tag notification = [tag_of ''doctor-email-notification'']
     \<and> (\<exists>rest more. com_payload notification =
           [Template (Lit (''Email enviado al Dr./Dra. '' @ rest) # more)])"
proof (intro conjI impI)
  have none: "getDoctorEmail doctor = None"
    using nomail by (rule getDoctorEmail_none)
  show "sendEmailToDoctor w patient doctor s d obs t0 =
       (Inr (), t0 @ [ConsoleLog ''No se encontro email del medico''])"
    using none by (rule sendEmailToDoctor_no_email)
  show "com_tag notification = [tag_of ''doctor-email-notification'']"
    by (simp add: n doctor_notification_def)
  show "\<exists>rest more. com_payload notification =
           [Template (Lit (''Email enviado al Dr./Dra. '' @ rest) # more)]"
    by (simp add: n doctor_notification_def)
  assume l: "doctor_lookup w obs s d tr patient (Some doctor) t"
  have s1: "sendEmailToDoctor w patient doctor s d obs (t @ [ConsoleLog ''Medico encontrado:'']) =
       (Inr (), t5)"
    using sendEmailToDoctor_no_email[OF none] t5 by simp
  show h: "handler_email w obs tr =
            (case createResource w t5 (CommunicationR notification) of
               Inl e \<Rightarrow> Inl e | Inr r \<Rightarrow> Inr (),
             t5 @ [CreateResource (CommunicationR notification)])"
    using handler_email_after_lookup[OF l]
    by (simp add: await_console_log
          await_Inr[where m="sendEmailToDoctor w patient doctor s d obs", OF s1]
          createDoctorNotificationCommunication_eq n)
  from l have "findPrimaryDoctor w patient (email_history_3 w patient obs s d tr) = (Inr (Some doctor), t)"
    by (simp add: doctor_lookup_def)
  from findPrimaryDoctor_events[OF this] obtain evs where
    evs: "t = email_history_3 w patient obs s d tr @ evs"
         "\<forall>ev\<in>set evs. \<not> is_send ev \<and> \<not> is_audit_create ev" by blast
  have "new_events (handler_email w obs) tr =
      drop (length tr) (email_history_3 w patient obs s d tr) @ evs
        @ [ConsoleLog ''Medico encontrado:'', ConsoleLog ''No se encontro email del medico'',
           CreateResource (CommunicationR notification)]"
    using h evs(1) t5
    by (simp add: new_events_def email_history_3_def email_history_2_def email_history_1_def)
  then show "\<forall>ev\<in>set (new_events (handler_email w obs) tr). \<not> is_send ev \<and> \<not> is_audit_create ev"
    using evs(2)
    by (auto simp: email_history_3_def email_history_2_def email_history_1_def
          is_send_def is_audit_create_def)
qed

lemma lookup_doctor_2:
  "doctor_lookup world_doctor_2 obs_150_95 (Fin 150) (Fin 95) [] patient_1 (Some doctor_2)
     (email_history_3 world_doctor_2 patient_1 obs_150_95 (Fin 150) (Fin 95) []
        @ [SearchResources ''CareTeam'' (careTeam_query patient_1),
           ReadReference (Some \<lparr>ref_reference = Some ''Practitioner/d1'', ref_display = None\<rparr>)])"
proof -
  have c: "careTeam_member [careTeam_1] = Some \<lparr>ref_reference = Some ''Practitioner/d1'', ref_display = None\<rparr>"
    by (simp add: lookup_defs careTeam_1_def)
  show ?thesis
    unfolding doctor_lookup_def
    by (simp add: obs_150_95_facts findPrimaryDoctor_eq c read_or_null_def succeeded_def world_defs)
qed

theorem doctor_without_work_email_witness:
  "list_all (\<lambda>c. \<not> (cp_system c = Some ''email'' \<and> cp_use c = Some ''work'')) (telecom_of doctor_2)
   \<and> doctor_lookup world_doctor_2 obs_150_95 (Fin 150) (Fin 95) [] patient_1 (Some doctor_2)
       (email_history_3 world_doctor_2 patient_1 obs_150_95 (Fin 150) (Fin 95) []
          @ [SearchResources ''CareTeam'' (careTeam_query patient_1),
             ReadReference (Some \<lparr>ref_reference = Some ''Practitioner/d1'', ref_display = None\<rparr>)])
   \<and> handler_email world_doctor_2 obs_150_95 [] =
       (Inr (),
        email_history_3 world_doctor_2 patient_1 obs_150_95 (Fin 150) (Fin 95) []
          @ [SearchResources ''CareTeam'' (careTeam_query patient_1),
             ReadReference (Some \<lparr>ref_reference = Some ''Practitioner/d1'', ref_display = None\<rparr>),
             ConsoleLog ''Medico encontrado:'',
             ConsoleLog ''No se encontro email del medico'',
             CreateResource (CommunicationR
               (doctor_notification patient_1 doctor_2 (Fin 150) (Fin 95) ''2023-07-16T10:00:00.000Z''))])
   \<and> filter is_send (new_events (handler_email world_doctor_2 obs_150_95) []) = []
   \<and> filter is_audit_create (new_events (handler_email world_doctor_2 obs_150_95) []) = []"
proof -
  let ?t = "email_history_3 world_doctor_2 patient_1 obs_150_95 (Fin 150) (Fin 95) []
          @ [SearchResources ''CareTeam'' (careTeam_query patient_1),
             ReadReference (Some \<lparr>ref_reference = Some ''Practitioner/d1'', ref_display = None\<rparr>)]"
  let ?t5 = "?t @ [ConsoleLog ''Medico encontrado:'', ConsoleLog ''No se encontro email del medico'']"
  have a: "\<forall>c\<in>set (telecom_of doctor_2). \<not> (cp_system c = Some ''email'' \<and> cp_use c = Some ''work'')"
    by (simp add: telecom_of_def doctor_2_def)
  from doctor_without_work_email [OF a refl refl, of world_doctor_2 patient_1 "Fin 150" "Fin 95"
         obs_150_95 "[]" "[]" ?t] lookup_doctor_2
  have r: "handler_email world_doctor_2 obs_150_95 [] =
          (case createResource world_doctor_2 ?t5
                  (CommunicationR (doctor_notification patient_1 doctor_2 (Fin 150) (Fin 95)
                     (new_Date world_doctor_2 ?t5))) of
             Inl e \<Rightarrow> Inl e | Inr r \<Rightarrow> Inr (),
           ?t5 @ [CreateResource (CommunicationR (doctor_notification patient_1 doctor_2 (Fin 150) (Fin 95)
                     (new_Date world_doctor_2 ?t5)))])
        \<and> (\<forall>ev\<in>set (new_events (handler_email world_doctor_2 obs_150_95) []).
             \<not> is_send ev \<and> \<not> is_audit_create ev)"
    by blast
  then have f: "filter is_send (new_events (handler_email world_doctor_2 obs_150_95) []) = []"
               "filter is_audit_create (new_events (handler_email world_doctor_2 obs_150_95) []) = []"
    by (simp_all add: filter_empty_conv)
  from a have a': "list_all (\<lambda>c. \<not> (cp_system c = Some ''email'' \<and> cp_use c = Some ''work''))
                     (telecom_of doctor_2)"
    by (simp add: list_all_iff)
  from r f a' lookup_doctor_2 show ?thesis
    by (simp add: world_defs)
qed

end
